theory Spec2Isabelle
  imports Main
begin

section \<open>JavaScript objects with string keys\<close>

text \<open>
  The deployment configuration and the remote project are plain JavaScript objects used as
  dictionaries (\<^verbatim>\<open>Record<string, V>\<close>). The source reads them with
  \<^verbatim>\<open>Object.keys\<close> and \<^verbatim>\<open>Object.entries\<close> and compares entry lists, so the
  order of the properties matters. An object is modelled by the list of its own
  properties in property order: keys that are array indices first, in ascending numeric
  order, then every other key in the order of its creation. Writing an existing key
  replaces the value and keeps the position.
\<close>

type_synonym 'v obj = "(string \<times> 'v) list"

definition is_digit :: "char \<Rightarrow> bool" where
  "is_digit c = (48 \<le> (of_char c :: nat) \<and> (of_char c :: nat) \<le> 57)"

definition digits_value :: "string \<Rightarrow> nat" where
  "digits_value s = foldl (\<lambda>n c. 10 * n + ((of_char c :: nat) - 48)) 0 s"

text \<open>An array index is a canonical decimal numeral below \<open>2^32 - 1\<close>.\<close>

definition array_index :: "string \<Rightarrow> nat option" where
  "array_index k =
     (if k \<noteq> [] \<and> list_all is_digit k \<and> (k = ''0'' \<or> hd k \<noteq> CHR ''0'')
         \<and> digits_value k < 4294967295
      then Some (digits_value k) else None)"

text \<open>Whether a key that is being created is listed before an existing key.\<close>

definition comes_before :: "string \<Rightarrow> string \<Rightarrow> bool" where
  "comes_before k k' =
     (case array_index k of
        None \<Rightarrow> False
      | Some n \<Rightarrow> (case array_index k' of None \<Rightarrow> True | Some m \<Rightarrow> n < m))"

fun obj_insert :: "string \<Rightarrow> 'v \<Rightarrow> 'v obj \<Rightarrow> 'v obj" where
  "obj_insert k v [] = [(k, v)]"
| "obj_insert k v ((k', v') # ps) =
     (if comes_before k k' then (k, v) # (k', v') # ps
      else (k', v') # obj_insert k v ps)"

fun obj_replace :: "string \<Rightarrow> 'v \<Rightarrow> 'v obj \<Rightarrow> 'v obj" where
  "obj_replace k v [] = []"
| "obj_replace k v ((k', v') # ps) =
     (if k' = k then (k', v) # ps else (k', v') # obj_replace k v ps)"

text \<open>The assignment \<^verbatim>\<open>o[k] = v\<close> on an ordinary object.\<close>

definition obj_set :: "string \<Rightarrow> 'v \<Rightarrow> 'v obj \<Rightarrow> 'v obj" where
  "obj_set k v ps =
     (if k \<in> fst ` set ps then obj_replace k v ps else obj_insert k v ps)"

text \<open>\<^verbatim>\<open>Object.fromEntries(es)\<close>: the entries are written one by one into a fresh object.\<close>

definition fromEntries :: "(string \<times> 'v) list \<Rightarrow> 'v obj" where
  "fromEntries es = foldl (\<lambda>ps (k, v). obj_set k v ps) [] es"

text \<open>
  \<^verbatim>\<open>Object.keys(o)\<close> and \<^verbatim>\<open>Object.entries(o)\<close> list the properties in property
  order; \<^verbatim>\<open>o[k]\<close> reads one (\<open>None\<close> is \<^verbatim>\<open>undefined\<close>).
\<close>

definition keys :: "'v obj \<Rightarrow> string list" where
  "keys ps = map fst ps"

definition entries :: "'v obj \<Rightarrow> (string \<times> 'v) list" where
  "entries ps = ps"

definition get :: "'v obj \<Rightarrow> string \<Rightarrow> 'v option" where
  "get ps = map_of ps"

text \<open>
  \<^verbatim>\<open>x || {}\<close> for an operand that may be \<^verbatim>\<open>undefined\<close> or \<^verbatim>\<open>null\<close>, and the
  object literal \<^verbatim>\<open>{...a, ...b}\<close>, whose operands may be \<^verbatim>\<open>undefined\<close> (spreading
  \<^verbatim>\<open>undefined\<close> copies nothing).
\<close>

definition or_empty :: "'v obj option \<Rightarrow> 'v obj" where
  "or_empty x = (case x of None \<Rightarrow> [] | Some ps \<Rightarrow> ps)"

definition spread :: "'v obj option \<Rightarrow> 'v obj option \<Rightarrow> 'v obj" where
  "spread a b = fromEntries (entries (or_empty a) @ entries (or_empty b))"

text \<open>A well-formed object has no key twice.\<close>

definition wf_obj :: "'v obj \<Rightarrow> bool" where
  "wf_obj ps = distinct (map fst ps)"


section \<open>Configuration types\<close>

text \<open>
  \<^verbatim>\<open>Environment\<close> and \<^verbatim>\<open>Trigger\<close> come from \<^verbatim>\<open>./config\<close>. The source names the
  members \<^verbatim>\<open>Local\<close>, \<^verbatim>\<open>Staging\<close>, \<^verbatim>\<open>Production\<close> and \<^verbatim>\<open>DirectUpload\<close>; every
  other trigger goes through Git and a Deploy Hook and is one constructor here.
\<close>

datatype environment = Local | Staging | Production

datatype trigger = DirectUpload | GitProvider

text \<open>
  The local descriptors of bound resources. Their declarations (\<^verbatim>\<open>./schemas\<close>) are not
  part of the sources; the fields are the ones \<^verbatim>\<open>configureProject\<close> reads. Every
  binding carries one descriptor per environment, selected by \<^verbatim>\<open>value[environment]\<close>.
\<close>

record id_descriptor =
  descriptor_id :: string

record name_descriptor =
  descriptor_name :: string

record service_descriptor =
  service_name :: string
  service_env :: string

type_synonym 'a per_environment = "environment \<Rightarrow> 'a"

text \<open>
  The deployment configuration of a fixture or feature file, and of the
  \<^verbatim>\<open>featuresConfig\<close> that \<^verbatim>\<open>setUpFeatures\<close> accumulates. A file may leave a
  category out, and \<^verbatim>\<open>setUpFeatures\<close> builds objects without
  \<^verbatim>\<open>analyticsEngineDatasets\<close>, so every field may be \<^verbatim>\<open>undefined\<close>.
\<close>

record deploymentConfig =
  environmentVariables :: "string obj option"
  d1Databases :: "id_descriptor per_environment obj option"
  durableObjectNamespaces :: "id_descriptor per_environment obj option"
  kvNamespaces :: "id_descriptor per_environment obj option"
  r2Buckets :: "name_descriptor per_environment obj option"
  services :: "service_descriptor per_environment obj option"
  queueProducers :: "name_descriptor per_environment obj option"
  analyticsEngineDatasets :: "name_descriptor per_environment obj option"

text \<open>
  \<^verbatim>\<open>combinedDeploymentConfig\<close>: the object literal of \<^verbatim>\<open>createDeployment\<close>
  defines all eight properties, so its fields are objects.
\<close>

record combinedConfig =
  combined_environmentVariables :: "string obj"
  combined_d1Databases :: "id_descriptor per_environment obj"
  combined_durableObjectNamespaces :: "id_descriptor per_environment obj"
  combined_kvNamespaces :: "id_descriptor per_environment obj"
  combined_r2Buckets :: "name_descriptor per_environment obj"
  combined_services :: "service_descriptor per_environment obj"
  combined_queueProducers :: "name_descriptor per_environment obj"
  combined_analyticsEngineDatasets :: "name_descriptor per_environment obj"

text \<open>
  \<^verbatim>\<open>FixtureConfig\<close>: the build fields may be missing (the source guards them with
  \<^verbatim>\<open>|| ""\<close> and \<^verbatim>\<open>if (buildCommand)\<close>); the fixture's deployment configuration
  carries the compatibility settings besides the categories.
\<close>

record buildConfig =
  buildCommand :: "string option"
  buildOutputDirectory :: "string option"
  rootDirectory :: "string option"

record fixtureConfig =
  fixture_buildConfig :: buildConfig
  compatibilityDate :: string
  compatibilityFlags :: "string list"
  fixture_deploymentConfig :: deploymentConfig

text \<open>
  The remote \<^verbatim>\<open>Project\<close>. One interface types the fetched project, the update
  payload and the response; the payload writes \<^verbatim>\<open>null\<close> for a binding to delete,
  so a binding's value is optional. A category may be missing, and \<^verbatim>\<open>env_vars\<close> may
  be \<^verbatim>\<open>null\<close>: both are \<open>None\<close>.
\<close>

datatype env_var = plain_text string

record namespace_binding =
  namespace_id :: string

record service_binding =
  service :: string
  service_environment :: string

record dataset_binding =
  dataset :: string

record build_config =
  build_command :: string
  destination_dir :: string
  root_dir :: string

record preview =
  compatibility_date :: string
  compatibility_flags :: "string list"
  env_vars :: "env_var option obj option"
  d1_databases :: "id_descriptor option obj option"
  durable_object_namespaces :: "namespace_binding option obj option"
  kv_namespaces :: "namespace_binding option obj option"
  r2_buckets :: "name_descriptor option obj option"
  remote_services :: "service_binding option obj option"
  queue_producers :: "name_descriptor option obj option"
  analytics_engine_datasets :: "dataset_binding option obj option"

record project =
  project_build_config :: build_config
  deployment_configs_preview :: preview


section \<open>Merging the deployment configuration\<close>

text \<open>
  The object \<^verbatim>\<open>featuresConfig.deploymentConfig\<close> that \<^verbatim>\<open>setUpFeatures\<close> starts
  from: seven empty categories, and no \<^verbatim>\<open>analyticsEngineDatasets\<close> property.
\<close>

definition initialFeaturesConfig :: deploymentConfig where
  "initialFeaturesConfig =
     \<lparr> environmentVariables = Some [],
       d1Databases = Some [],
       durableObjectNamespaces = Some [],
       kvNamespaces = Some [],
       r2Buckets = Some [],
       services = Some [],
       queueProducers = Some [],
       analyticsEngineDatasets = None \<rparr>"

text \<open>
  One round of the loop over the features: the assignment to
  \<^verbatim>\<open>featuresConfig.deploymentConfig\<close>. Its object literal lists seven properties.
\<close>

definition addFeature :: "deploymentConfig \<Rightarrow> deploymentConfig \<Rightarrow> deploymentConfig" where
  "addFeature acc config =
     \<lparr> environmentVariables =
         Some (spread (environmentVariables acc) (environmentVariables config)),
       d1Databases = Some (spread (d1Databases acc) (d1Databases config)),
       durableObjectNamespaces =
         Some (spread (durableObjectNamespaces acc) (durableObjectNamespaces config)),
       kvNamespaces = Some (spread (kvNamespaces acc) (kvNamespaces config)),
       r2Buckets = Some (spread (r2Buckets acc) (r2Buckets config)),
       services = Some (spread (services acc) (services config)),
       queueProducers = Some (spread (queueProducers acc) (queueProducers config)),
       analyticsEngineDatasets = None \<rparr>"

text \<open>
  \<^verbatim>\<open>setUpFeatures\<close>, on the parsed \<^verbatim>\<open>main.feature\<close> files of the resolved features
  in their order. Reading the files and running the setup commands is left out.
\<close>

definition setUpFeatures :: "deploymentConfig list \<Rightarrow> deploymentConfig" where
  "setUpFeatures configs = foldl addFeature initialFeaturesConfig configs"

text \<open>\<^verbatim>\<open>combinedDeploymentConfig\<close> of \<^verbatim>\<open>createDeployment\<close>.\<close>

definition combinedDeploymentConfig ::
  "deploymentConfig \<Rightarrow> deploymentConfig \<Rightarrow> combinedConfig" where
  "combinedDeploymentConfig fixtureConfig featuresConfig =
     \<lparr> combined_environmentVariables =
         spread (environmentVariables fixtureConfig) (environmentVariables featuresConfig),
       combined_d1Databases = spread (d1Databases fixtureConfig) (d1Databases featuresConfig),
       combined_durableObjectNamespaces =
         spread (durableObjectNamespaces fixtureConfig) (durableObjectNamespaces featuresConfig),
       combined_kvNamespaces = spread (kvNamespaces fixtureConfig) (kvNamespaces featuresConfig),
       combined_r2Buckets = spread (r2Buckets fixtureConfig) (r2Buckets featuresConfig),
       combined_services = spread (services fixtureConfig) (services featuresConfig),
       combined_queueProducers =
         spread (queueProducers fixtureConfig) (queueProducers featuresConfig),
       combined_analyticsEngineDatasets =
         spread (analyticsEngineDatasets fixtureConfig)
           (analyticsEngineDatasets featuresConfig) \<rparr>"

text \<open>
  The merged configuration of a run: the fixture's configuration combined with what
  \<^verbatim>\<open>setUpFeatures\<close> returns for the fixture's features.
\<close>

definition mergedDeploymentConfig ::
  "deploymentConfig \<Rightarrow> deploymentConfig list \<Rightarrow> combinedConfig" where
  "mergedDeploymentConfig fixtureConfig configs =
     combinedDeploymentConfig fixtureConfig (setUpFeatures configs)"

text \<open>
  The merge as the specification words it, for one category: a shallow key-wise union
  walking the input list in order, a later input overwriting an earlier one.
\<close>

definition spec_merge_category :: "'v obj option list \<Rightarrow> 'v obj" where
  "spec_merge_category inputs = foldl (\<lambda>acc x. spread (Some acc) x) [] inputs"


section \<open>Errors\<close>

text \<open>
  What the source throws or rejects with. An assertion (\<^verbatim>\<open>ok\<close>,
  \<^verbatim>\<open>assert.deepStrictEqual\<close>) carries its message, if it was given one.
  \<open>RequestError\<close> stands for whatever \<^verbatim>\<open>fetch\<close>, \<^verbatim>\<open>text()\<close>,
  \<^verbatim>\<open>JSON.parse\<close> or reading a property of \<^verbatim>\<open>undefined\<close> throws.
  \<^verbatim>\<open>transformResponseIntoError(response, text, message)\<close> is a collaborator
  (\<^verbatim>\<open>./utils\<close>); its error keeps the message it was given: none, a fixed text, or
  the stringified error that was caught.
\<close>

datatype error =
    AssertionError "string option"
  | RequestError
  | ShellError
  | MutexError
  | ResponseError "string option"
  | ResponseErrorOf error
  | NotOkResponse nat nat
  | DeploymentTimeout nat
  | DeploymentFailed string string string string
  | ProvisionerTimeout nat


section \<open>Reconciling the remote project\<close>

text \<open>\<^verbatim>\<open>x || ""\<close> on a string that may be \<^verbatim>\<open>undefined\<close>: the empty string is falsy.\<close>

definition or_empty_string :: "string option \<Rightarrow> string" where
  "or_empty_string x = (case x of None \<Rightarrow> [] | Some s \<Rightarrow> if s = [] then [] else s)"

text \<open>
  The remote representation of a binding in the target environment: the second component
  of the pair that each \<^verbatim>\<open>Object.entries(...).map\<close> of the payload builds.
\<close>

definition env_var_remote :: "string \<Rightarrow> env_var" where
  "env_var_remote v = plain_text v"

definition d1_remote :: "environment \<Rightarrow> id_descriptor per_environment \<Rightarrow> id_descriptor" where
  "d1_remote env v = v env"

definition namespace_remote ::
  "environment \<Rightarrow> id_descriptor per_environment \<Rightarrow> namespace_binding" where
  "namespace_remote env v = \<lparr> namespace_id = descriptor_id (v env) \<rparr>"

definition r2_remote :: "environment \<Rightarrow> name_descriptor per_environment \<Rightarrow> name_descriptor" where
  "r2_remote env v = v env"

definition service_remote ::
  "environment \<Rightarrow> service_descriptor per_environment \<Rightarrow> service_binding" where
  "service_remote env v =
     \<lparr> service = service_name (v env), service_environment = service_env (v env) \<rparr>"

definition queue_remote ::
  "environment \<Rightarrow> name_descriptor per_environment \<Rightarrow> name_descriptor" where
  "queue_remote env v = v env"

definition dataset_remote ::
  "environment \<Rightarrow> name_descriptor per_environment \<Rightarrow> dataset_binding" where
  "dataset_remote env v = \<lparr> dataset = descriptor_name (v env) \<rparr>"

text \<open>
  One category of the payload, the pattern the source writes out eight times:
  \<^verbatim>\<open>{...Object.fromEntries(Object.keys(initial || {}).map((name) => [name, null])),
     ...Object.fromEntries(Object.entries(desired).map(([name, value]) => [name, f(value)]))}\<close>
\<close>

definition desired_entries :: "('l \<Rightarrow> 'r) \<Rightarrow> 'l obj \<Rightarrow> (string \<times> 'r option) list" where
  "desired_entries f desired = map (\<lambda>(name, v). (name, Some (f v))) (entries desired)"

definition category_payload ::
  "'x obj option \<Rightarrow> ('l \<Rightarrow> 'r) \<Rightarrow> 'l obj \<Rightarrow> 'r option obj" where
  "category_payload initial f desired =
     spread
       (Some (fromEntries (map (\<lambda>name. (name, None)) (keys (or_empty initial)))))
       (Some (fromEntries (desired_entries f desired)))"

text \<open>
  The payload of one category as the specification words it: start from the keys
  present remotely, each mapped to \<^verbatim>\<open>null\<close>, then overlay every desired key mapped
  to its remote representation.
\<close>

definition spec_category_patch ::
  "string set \<Rightarrow> (string \<rightharpoonup> 'r) \<Rightarrow> (string \<rightharpoonup> 'r option)" where
  "spec_category_patch remote_keys desired =
     (\<lambda>k. if k \<in> remote_keys then Some None else None)
       ++ (\<lambda>k. map_option Some (desired k))"

text \<open>\<^verbatim>\<open>updatePayload\<close> of \<^verbatim>\<open>configureProject\<close>.\<close>

definition updatePayload ::
  "environment \<Rightarrow> project \<Rightarrow> fixtureConfig \<Rightarrow> combinedConfig \<Rightarrow> project" where
  "updatePayload env initialProject fixtureConfig combined =
     (let initial = deployment_configs_preview initialProject in
      \<lparr> project_build_config =
          \<lparr> build_command = or_empty_string (buildCommand (fixture_buildConfig fixtureConfig)),
            destination_dir =
              or_empty_string (buildOutputDirectory (fixture_buildConfig fixtureConfig)),
            root_dir = or_empty_string (rootDirectory (fixture_buildConfig fixtureConfig)) \<rparr>,
        deployment_configs_preview =
          \<lparr> compatibility_date = compatibilityDate fixtureConfig,
            compatibility_flags = compatibilityFlags fixtureConfig,
            env_vars =
              Some (category_payload (env_vars initial) env_var_remote
                      (combined_environmentVariables combined)),
            d1_databases =
              Some (category_payload (d1_databases initial) (d1_remote env)
                      (combined_d1Databases combined)),
            durable_object_namespaces =
              Some (category_payload (durable_object_namespaces initial) (namespace_remote env)
                      (combined_durableObjectNamespaces combined)),
            kv_namespaces =
              Some (category_payload (kv_namespaces initial) (namespace_remote env)
                      (combined_kvNamespaces combined)),
            r2_buckets =
              Some (category_payload (r2_buckets initial) (r2_remote env)
                      (combined_r2Buckets combined)),
            remote_services =
              Some (category_payload (remote_services initial) (service_remote env)
                      (combined_services combined)),
            queue_producers =
              Some (category_payload (queue_producers initial) (queue_remote env)
                      (combined_queueProducers combined)),
            analytics_engine_datasets =
              Some (category_payload (analytics_engine_datasets initial) (dataset_remote env)
                      (combined_analyticsEngineDatasets combined)) \<rparr> \<rparr>)"

text \<open>
  The checks on the response of the update. The source makes thirteen assertions one
  after the other, each with its own message; the first that fails throws, and the
  \<^verbatim>\<open>catch\<close> around them wraps what was thrown.
\<close>

datatype category =
    EnvironmentVariables | D1Databases | DurableObjectNamespaces | KvNamespaces
  | R2Buckets | Services | QueueProducers | AnalyticsEngineDatasets

datatype field =
    BuildCommand | BuildOutputDirectory | RootDirectory
  | CompatibilityDate | CompatibilityFlags
  | Category category

definition verified_fields :: "field list" where
  "verified_fields =
     [BuildCommand, BuildOutputDirectory, RootDirectory, CompatibilityDate,
      CompatibilityFlags, Category EnvironmentVariables, Category D1Databases,
      Category DurableObjectNamespaces, Category KvNamespaces, Category R2Buckets,
      Category Services, Category QueueProducers, Category AnalyticsEngineDatasets]"

fun field_message :: "field \<Rightarrow> string" where
  "field_message BuildCommand = ''Build command was not set correctly.''"
| "field_message BuildOutputDirectory = ''Build output directory was not set correctly.''"
| "field_message RootDirectory = ''Root directory was not set correctly.''"
| "field_message CompatibilityDate = ''Compatibility date was not set correctly.''"
| "field_message CompatibilityFlags = ''Compatibility flags were not set correctly.''"
| "field_message (Category EnvironmentVariables) =
     ''Environment variables were not set correctly.''"
| "field_message (Category D1Databases) = ''D1 database bindings were not set correctly.''"
| "field_message (Category DurableObjectNamespaces) =
     ''Durable Object namespace bindings were not set correctly.''"
| "field_message (Category KvNamespaces) = ''KV namespace bindings were not set correctly.''"
| "field_message (Category R2Buckets) = ''R2 bucket bindings were not set correctly.''"
| "field_message (Category Services) = ''Service bindings were not set correctly.''"
| "field_message (Category QueueProducers) =
     ''Queue Producer bindings were not set correctly.''"
| "field_message (Category AnalyticsEngineDatasets) =
     ''Analytics Engine dataset bindings were not set correctly.''"

text \<open>
  The comparison of one category:
  \<^verbatim>\<open>assert.deepStrictEqual(Object.entries(response || {}),
     Object.entries(desired).map(([name, value]) => [name, f(value)]))\<close>
\<close>

definition category_matches ::
  "'r option obj option \<Rightarrow> ('l \<Rightarrow> 'r) \<Rightarrow> 'l obj \<Rightarrow> bool" where
  "category_matches response f desired \<longleftrightarrow>
     entries (or_empty response) = desired_entries f desired"

fun category_ok :: "environment \<Rightarrow> combinedConfig \<Rightarrow> preview \<Rightarrow> category \<Rightarrow> bool" where
  "category_ok env combined remote EnvironmentVariables =
     category_matches (env_vars remote) env_var_remote (combined_environmentVariables combined)"
| "category_ok env combined remote D1Databases =
     category_matches (d1_databases remote) (d1_remote env) (combined_d1Databases combined)"
| "category_ok env combined remote DurableObjectNamespaces =
     category_matches (durable_object_namespaces remote) (namespace_remote env)
       (combined_durableObjectNamespaces combined)"
| "category_ok env combined remote KvNamespaces =
     category_matches (kv_namespaces remote) (namespace_remote env)
       (combined_kvNamespaces combined)"
| "category_ok env combined remote R2Buckets =
     category_matches (r2_buckets remote) (r2_remote env) (combined_r2Buckets combined)"
| "category_ok env combined remote Services =
     category_matches (remote_services remote) (service_remote env) (combined_services combined)"
| "category_ok env combined remote QueueProducers =
     category_matches (queue_producers remote) (queue_remote env)
       (combined_queueProducers combined)"
| "category_ok env combined remote AnalyticsEngineDatasets =
     category_matches (analytics_engine_datasets remote) (dataset_remote env)
       (combined_analyticsEngineDatasets combined)"

text \<open>
  The condition of each assertion. A build field of the response is compared by
  \<^verbatim>\<open>===\<close> with the fixture's raw field, which may be \<^verbatim>\<open>undefined\<close>.
\<close>

fun field_ok ::
  "environment \<Rightarrow> fixtureConfig \<Rightarrow> combinedConfig \<Rightarrow> project \<Rightarrow> field \<Rightarrow> bool" where
  "field_ok env fixtureConfig combined project BuildCommand =
     (Some (build_command (project_build_config project))
        = buildCommand (fixture_buildConfig fixtureConfig))"
| "field_ok env fixtureConfig combined project BuildOutputDirectory =
     (Some (destination_dir (project_build_config project))
        = buildOutputDirectory (fixture_buildConfig fixtureConfig))"
| "field_ok env fixtureConfig combined project RootDirectory =
     (Some (root_dir (project_build_config project))
        = rootDirectory (fixture_buildConfig fixtureConfig))"
| "field_ok env fixtureConfig combined project CompatibilityDate =
     (compatibility_date (deployment_configs_preview project)
        = compatibilityDate fixtureConfig)"
| "field_ok env fixtureConfig combined project CompatibilityFlags =
     (compatibility_flags (deployment_configs_preview project)
        = compatibilityFlags fixtureConfig)"
| "field_ok env fixtureConfig combined project (Category cat) =
     category_ok env combined (deployment_configs_preview project) cat"

definition verifyProject ::
  "environment \<Rightarrow> fixtureConfig \<Rightarrow> combinedConfig \<Rightarrow> project \<Rightarrow> error + unit" where
  "verifyProject env fixtureConfig combined project =
     (case find (\<lambda>f. \<not> field_ok env fixtureConfig combined project f) verified_fields of
        None \<Rightarrow> Inr ()
      | Some f \<Rightarrow> Inl (AssertionError (Some (field_message f))))"

text \<open>
  The remote platform as \<^verbatim>\<open>configureProject\<close> sees it: the parsed \<^verbatim>\<open>result\<close> of the
  GET (\<open>None\<close> when the request or the parse throws, or the body has no result), and the
  parsed \<^verbatim>\<open>result\<close> of the PATCH for a given payload (\<open>None\<close> when the request, the
  parse or a property read throws).
\<close>

record platform =
  get_project :: "project option"
  patch_project :: "project \<Rightarrow> project option"

definition configureProject ::
  "environment \<Rightarrow> platform \<Rightarrow> fixtureConfig \<Rightarrow> deploymentConfig \<Rightarrow> error + project" where
  "configureProject env remote fixtureConfig featuresConfig =
     (let combined =
            combinedDeploymentConfig (fixture_deploymentConfig fixtureConfig) featuresConfig
      in
      if env \<noteq> Production \<and> env \<noteq> Staging then Inl (AssertionError None)
      else
        case get_project remote of
          None \<Rightarrow> Inl (ResponseError None)
        | Some initialProject \<Rightarrow>
            (case patch_project remote (updatePayload env initialProject fixtureConfig combined) of
               None \<Rightarrow> Inl (ResponseErrorOf RequestError)
             | Some project \<Rightarrow>
                 (case verifyProject env fixtureConfig combined project of
                    Inl e \<Rightarrow> Inl (ResponseErrorOf e)
                  | Inr _ \<Rightarrow> Inr project)))"


section \<open>The two polling loops\<close>

text \<open>
  Both loops have the same shape: a promise, awaited by the caller, whose
  \<^verbatim>\<open>resolve\<close> and \<^verbatim>\<open>reject\<close> are wrapped so that they first clear the interval;
  and a \<^verbatim>\<open>setInterval\<close> callback that checks the timeout and then starts a detached
  \<^verbatim>\<open>async\<close> body, without awaiting it. The body of one tick may still be waiting for
  its \<^verbatim>\<open>fetch\<close> when the next tick fires, so a schedule is a list of events: the
  timer fires at a clock reading, or one outstanding body gets the answer to its request
  and runs to its end.
\<close>

datatype 'a outcome = Pending | Success 'a | Failure error

datatype level = Debug | Warn | Error

datatype 'r event = Tick nat | Settled 'r

record 'a poller =
  outcome :: "'a outcome"
  interval_active :: bool
  in_flight :: nat
  logged :: "level list"

text \<open>
  \<^verbatim>\<open>resolveWith...Success\<close> and \<^verbatim>\<open>rejectWith...Failure\<close>: \<^verbatim>\<open>clearInterval\<close>, then
  the promise's own \<^verbatim>\<open>resolve\<close> or \<^verbatim>\<open>reject\<close>, which does nothing on a promise
  that is already settled.
\<close>

definition resolveWith :: "'a \<Rightarrow> ('a, 'z) poller_scheme \<Rightarrow> ('a, 'z) poller_scheme" where
  "resolveWith v s =
     s\<lparr> interval_active := False,
        outcome := (if outcome s = Pending then Success v else outcome s) \<rparr>"

definition rejectWith :: "error \<Rightarrow> ('a, 'z) poller_scheme \<Rightarrow> ('a, 'z) poller_scheme" where
  "rejectWith e s =
     s\<lparr> interval_active := False,
        outcome := (if outcome s = Pending then Failure e else outcome s) \<rparr>"

definition logger :: "level \<Rightarrow> ('a, 'z) poller_scheme \<Rightarrow> ('a, 'z) poller_scheme" where
  "logger l s = s\<lparr> logged := logged s @ [l] \<rparr>"

subsection \<open>Deployment poller\<close>

text \<open>
  The constants of \<^verbatim>\<open>./config\<close> that the loops compare against (times in
  milliseconds), the host and the project's credentials.
\<close>

record constants =
  DEPLOYMENT_TIMEOUT :: nat
  DEPLOYMENT_CHECK_API_FAILURES_THRESHOLD :: nat
  PROVISIONER_TIMEOUT :: nat

record host =
  api :: string
  dash :: string

record credentials =
  CLOUDFLARE_ACCOUNT_ID :: string
  CLOUDFLARE_API_TOKEN :: string
  PROJECT_NAME :: string
  GIT_REPO :: "string option"

text \<open>The \<^verbatim>\<open>result\<close> of a parsed \<^verbatim>\<open>DeploymentResponse\<close>.\<close>

record deployment =
  url :: string
  latest_stage_name :: string
  latest_stage_status :: string

text \<open>
  The poller's own state: the counter \<^verbatim>\<open>notOkResponses\<close>, and the errors thrown
  inside a detached \<^verbatim>\<open>async\<close> body. Nothing awaits or catches the promise of such a
  body, so an error thrown there rejects that promise only.
\<close>

record 'a deployment_poller = "'a poller" +
  notOkResponses :: nat
  unhandled_rejections :: "error list"

definition dashboard_link :: "host \<Rightarrow> credentials \<Rightarrow> string \<Rightarrow> string" where
  "dashboard_link h p ident =
     dash h @ ''/'' @ CLOUDFLARE_ACCOUNT_ID p @ ''/pages/view/'' @ PROJECT_NAME p
       @ ''/'' @ ident"

text \<open>The \<^verbatim>\<open>setInterval\<close> callback; a cleared interval does not call it.\<close>

definition deploymentTick ::
  "constants \<Rightarrow> nat \<Rightarrow> nat \<Rightarrow> string deployment_poller \<Rightarrow> string deployment_poller" where
  "deploymentTick c startDeployment now s =
     (if \<not> interval_active s then s
      else
        let s1 = (if now > startDeployment + DEPLOYMENT_TIMEOUT c
                  then rejectWith (DeploymentTimeout (DEPLOYMENT_TIMEOUT c)) s else s)
        in s1\<lparr> in_flight := in_flight s1 + 1 \<rparr>)"

text \<open>
  The \<^verbatim>\<open>catch\<close> block of the body. The block awaits
  \<^verbatim>\<open>transformResponseIntoError\<close> between the increment and the comparison; the
  model runs the block in one piece.
\<close>

definition notOkResponse ::
  "constants \<Rightarrow> string deployment_poller \<Rightarrow> string deployment_poller" where
  "notOkResponse c s =
     (let n = notOkResponses s + 1;
          error = NotOkResponse n (DEPLOYMENT_CHECK_API_FAILURES_THRESHOLD c);
          s1 = s\<lparr> notOkResponses := n \<rparr>
      in
      if n > DEPLOYMENT_CHECK_API_FAILURES_THRESHOLD c
      then (logger Error s1)\<lparr> unhandled_rejections := unhandled_rejections s1 @ [error] \<rparr>
      else logger Debug (logger Debug s1))"

text \<open>
  The \<^verbatim>\<open>try\<close> block of the body once the response is there: \<open>None\<close> when the
  request or the parse threw, and \<^verbatim>\<open>ok(url)\<close>, \<^verbatim>\<open>ok(latestStage.status)\<close> throw
  on an empty string.
\<close>

definition deploymentSettled ::
  "constants \<Rightarrow> host \<Rightarrow> credentials \<Rightarrow> string \<Rightarrow> deployment option
     \<Rightarrow> string deployment_poller \<Rightarrow> string deployment_poller" where
  "deploymentSettled c h p ident response s =
     (if in_flight s = 0 then s
      else
        let s1 = s\<lparr> in_flight := in_flight s - 1 \<rparr> in
        case response of
          None \<Rightarrow> notOkResponse c s1
        | Some r \<Rightarrow>
            if url r = [] \<or> latest_stage_status r = [] then notOkResponse c s1
            else if latest_stage_name r = ''deploy'' \<and> latest_stage_status r = ''success''
            then resolveWith (url r) s1
            else if latest_stage_status r \<notin> set [''idle'', ''active'', ''success'']
            then rejectWith
                   (DeploymentFailed ident (latest_stage_name r) (latest_stage_status r)
                      (dashboard_link h p ident)) s1
            else logger Debug s1)"

fun deploymentStep ::
  "constants \<Rightarrow> host \<Rightarrow> credentials \<Rightarrow> string \<Rightarrow> nat \<Rightarrow> string deployment_poller
     \<Rightarrow> deployment option event \<Rightarrow> string deployment_poller" where
  "deploymentStep c h p ident start s (Tick now) = deploymentTick c start now s"
| "deploymentStep c h p ident start s (Settled r) = deploymentSettled c h p ident r s"

definition deploymentPollerStart :: "string deployment_poller" where
  "deploymentPollerStart =
     \<lparr> outcome = Pending, interval_active = True, in_flight = 0, logged = [],
       notOkResponses = 0, unhandled_rejections = [] \<rparr>"

definition deploymentPoller ::
  "constants \<Rightarrow> host \<Rightarrow> credentials \<Rightarrow> string \<Rightarrow> nat \<Rightarrow> deployment option event list
     \<Rightarrow> string deployment_poller" where
  "deploymentPoller c h p ident start evs =
     foldl (deploymentStep c h p ident start) deploymentPollerStart evs"

subsection \<open>Edge-availability poller\<close>

text \<open>
  \<^verbatim>\<open>waitForDeploymentToBeProvisioned\<close>. A probe answers \<open>Some True\<close> when
  \<^verbatim>\<open>responseIsNotProvisioned\<close> holds of the response, \<open>Some False\<close> when it does
  not, and \<open>None\<close> when \<^verbatim>\<open>fetch\<close> or the predicate throws.
\<close>

definition provisionerTick :: "constants \<Rightarrow> nat \<Rightarrow> nat \<Rightarrow> unit poller \<Rightarrow> unit poller" where
  "provisionerTick c startProvisioner now s =
     (if \<not> interval_active s then s
      else
        let s1 = (if now > startProvisioner + PROVISIONER_TIMEOUT c
                  then rejectWith (ProvisionerTimeout (PROVISIONER_TIMEOUT c)) s else s)
        in s1\<lparr> in_flight := in_flight s1 + 1 \<rparr>)"

definition provisionerSettled :: "bool option \<Rightarrow> unit poller \<Rightarrow> unit poller" where
  "provisionerSettled probe s =
     (if in_flight s = 0 then s
      else
        let s1 = s\<lparr> in_flight := in_flight s - 1 \<rparr> in
        case probe of
          None \<Rightarrow> logger Debug s1
        | Some deploymentIsNotProvisioned \<Rightarrow>
            if deploymentIsNotProvisioned then logger Debug s1 else resolveWith () s1)"

fun provisionerStep :: "constants \<Rightarrow> nat \<Rightarrow> unit poller \<Rightarrow> bool option event \<Rightarrow> unit poller" where
  "provisionerStep c start s (Tick now) = provisionerTick c start now s"
| "provisionerStep c start s (Settled probe) = provisionerSettled probe s"

definition provisionerStart :: "unit poller" where
  "provisionerStart = \<lparr> outcome = Pending, interval_active = True, in_flight = 0, logged = [] \<rparr>"

definition waitForDeploymentToBeProvisioned ::
  "constants \<Rightarrow> nat \<Rightarrow> bool option event list \<Rightarrow> unit poller" where
  "waitForDeploymentToBeProvisioned c start evs =
     foldl (provisionerStep c start) provisionerStart evs"


section \<open>Creating a deployment on the remote platform\<close>

text \<open>
  The branch of \<^verbatim>\<open>createDeployment\<close> for the environments other than
  \<^verbatim>\<open>Local\<close>. The calls that leave the process are recorded in the order in which
  the source makes them; \<^verbatim>\<open>logger.log\<close> and \<^verbatim>\<open>logger.info\<close> are left out,
  \<^verbatim>\<open>logger.warn\<close> is recorded.
\<close>

datatype effect =
    GitPush string
  | RegisterTeardown string
  | CreateDeployHook
  | AcquireMutex string
  | ConfigureProject
  | FireDeployHook string
  | ReleaseMutex string
  | LoggerWarn
  | AwaitDeployment string
  | AwaitProvisioned string

text \<open>
  What the collaborators answer during one run: the tables \<^verbatim>\<open>HOSTS\<close> and
  \<^verbatim>\<open>PAGES_PROJECTS\<close>, whether the shell commands of the push succeed, the
  \<^verbatim>\<open>hook_id\<close> parsed from the Deploy Hook's creation and the \<^verbatim>\<open>id\<close> parsed from
  its firing (\<open>None\<close> when the request or the parse throws), the lease that
  \<^verbatim>\<open>acquireMutex\<close> returns (\<open>None\<close> when it throws), whether
  \<^verbatim>\<open>releaseMutex\<close> returns, the clock at the start of each loop and the schedule of
  each loop. \<^verbatim>\<open>encodeURIComponent\<close> is the built-in.
\<close>

record world = platform +
  config :: constants
  HOSTS :: "environment \<Rightarrow> host option"
  PAGES_PROJECTS :: "environment \<Rightarrow> trigger \<Rightarrow> credentials option"
  encodeURIComponent :: "string \<Rightarrow> string"
  git_push_succeeds :: bool
  created_hook_id :: "string option"
  acquired_mutex :: "string option"
  fired_deployment_id :: "string option"
  release_succeeds :: bool
  startDeployment :: nat
  deployment_schedule :: "deployment option event list"
  startProvisioner :: nat
  provisioner_schedule :: "bool option event list"

datatype 'a completion = Returns 'a | Throws error | StillWaiting

definition mutexKey :: "world \<Rightarrow> host \<Rightarrow> credentials \<Rightarrow> string" where
  "mutexKey w h p =
     encodeURIComponent w (api h @ '':'' @ CLOUDFLARE_ACCOUNT_ID p @ '':'' @ PROJECT_NAME p)"

text \<open>
  The block under \<^verbatim>\<open>if (trigger !== Trigger.DirectUpload)\<close>: it ends with the
  deployment's id, or with the error thrown.
\<close>

definition deployWithHook ::
  "world \<Rightarrow> environment \<Rightarrow> host \<Rightarrow> credentials \<Rightarrow> fixtureConfig \<Rightarrow> deploymentConfig
     \<Rightarrow> effect list \<times> (error + string)" where
  "deployWithHook w env h p fixtureConfig featuresConfig =
     (case GIT_REPO p of
        None \<Rightarrow> ([], Inl (AssertionError None))
      | Some repo \<Rightarrow>
          if repo = [] then ([], Inl (AssertionError None))
          else if \<not> git_push_succeeds w then ([GitPush repo], Inl ShellError)
          else
            (let t1 = [GitPush repo, RegisterTeardown ''Delete Git branch'', CreateDeployHook]
             in
             case created_hook_id w of
               None \<Rightarrow> (t1, Inl (ResponseError (Some ''Could not create Deploy Hook.'')))
             | Some hookId \<Rightarrow>
                 if hookId = []
                 then (t1, Inl (ResponseError (Some ''Could not create Deploy Hook.'')))
                 else
                   (let t2 = t1 @ [RegisterTeardown ''Delete Deploy Hook'',
                                   AcquireMutex (mutexKey w h p)]
                    in
                    case acquired_mutex w of
                      None \<Rightarrow> (t2, Inl MutexError)
                    | Some mutex \<Rightarrow>
                        (let t3 = t2 @ [ConfigureProject] in
                         case configureProject env (platform.truncate w) fixtureConfig
                                featuresConfig of
                           Inl e \<Rightarrow> (t3, Inl e)
                         | Inr _ \<Rightarrow>
                             (let t4 = t3 @ [FireDeployHook hookId] in
                              case fired_deployment_id w of
                                None \<Rightarrow>
                                  (t4,
                                   Inl (ResponseError (Some ''Could not create Deployment.'')))
                              | Some ident \<Rightarrow>
                                  if ident = []
                                  then (t4,
                                        Inl (ResponseError
                                               (Some ''Could not create Deployment.'')))
                                  else
                                    (t4 @ [ReleaseMutex mutex]
                                       @ (if release_succeeds w then [] else [LoggerWarn]),
                                     Inr ident))))))"

text \<open>
  The remote branch as a whole. With \<^verbatim>\<open>Trigger.DirectUpload\<close> nothing assigns
  \<^verbatim>\<open>id\<close>, and the templates that use it print \<^verbatim>\<open>undefined\<close>. The result is
  \<open>StillWaiting\<close> when the awaited promise is still pending at the end of the schedule.
  At \<^verbatim>\<open>Environment.Local\<close> the source returns from its other branch (the local build
  and \<^verbatim>\<open>wranglerPagesDev\<close>) and reaches none of this: the definition is read at
  \<^verbatim>\<open>Staging\<close> and \<^verbatim>\<open>Production\<close>.
\<close>

definition createDeployment ::
  "world \<Rightarrow> environment \<Rightarrow> trigger \<Rightarrow> fixtureConfig \<Rightarrow> deploymentConfig
     \<Rightarrow> effect list \<times> string completion" where
  "createDeployment w env trig fixtureConfig featuresConfig =
     (case HOSTS w env of
        None \<Rightarrow> ([], Throws (AssertionError None))
      | Some h \<Rightarrow>
          (case PAGES_PROJECTS w env trig of
             None \<Rightarrow> ([], Throws (AssertionError None))
           | Some p \<Rightarrow>
               (case (if trig \<noteq> DirectUpload
                      then deployWithHook w env h p fixtureConfig featuresConfig
                      else ([], Inr ''undefined'')) of
                  (t, Inl e) \<Rightarrow> (t, Throws e)
                | (t, Inr ident) \<Rightarrow>
                    (case outcome (deploymentPoller (config w) h p ident (startDeployment w)
                                     (deployment_schedule w)) of
                       Pending \<Rightarrow> (t @ [AwaitDeployment ident], StillWaiting)
                     | Failure e \<Rightarrow> (t @ [AwaitDeployment ident], Throws e)
                     | Success u \<Rightarrow>
                         if env = Production
                         then
                           (case outcome (waitForDeploymentToBeProvisioned (config w)
                                            (startProvisioner w) (provisioner_schedule w)) of
                              Pending \<Rightarrow>
                                (t @ [AwaitDeployment ident, AwaitProvisioned u], StillWaiting)
                            | Failure e \<Rightarrow>
                                (t @ [AwaitDeployment ident, AwaitProvisioned u], Throws e)
                            | Success _ \<Rightarrow>
                                (t @ [AwaitDeployment ident, AwaitProvisioned u], Returns u))
                         else (t @ [AwaitDeployment ident], Returns u)))))"


section \<open>Views of the categories, and example inputs\<close>

text \<open>
  The keys of one category, in property order, in a project and in the combined
  configuration.
\<close>

fun response_keys :: "category \<Rightarrow> preview \<Rightarrow> string list" where
  "response_keys EnvironmentVariables remote = keys (or_empty (env_vars remote))"
| "response_keys D1Databases remote = keys (or_empty (d1_databases remote))"
| "response_keys DurableObjectNamespaces remote =
     keys (or_empty (durable_object_namespaces remote))"
| "response_keys KvNamespaces remote = keys (or_empty (kv_namespaces remote))"
| "response_keys R2Buckets remote = keys (or_empty (r2_buckets remote))"
| "response_keys Services remote = keys (or_empty (remote_services remote))"
| "response_keys QueueProducers remote = keys (or_empty (queue_producers remote))"
| "response_keys AnalyticsEngineDatasets remote =
     keys (or_empty (analytics_engine_datasets remote))"

fun desired_keys :: "category \<Rightarrow> combinedConfig \<Rightarrow> string list" where
  "desired_keys EnvironmentVariables combined = keys (combined_environmentVariables combined)"
| "desired_keys D1Databases combined = keys (combined_d1Databases combined)"
| "desired_keys DurableObjectNamespaces combined =
     keys (combined_durableObjectNamespaces combined)"
| "desired_keys KvNamespaces combined = keys (combined_kvNamespaces combined)"
| "desired_keys R2Buckets combined = keys (combined_r2Buckets combined)"
| "desired_keys Services combined = keys (combined_services combined)"
| "desired_keys QueueProducers combined = keys (combined_queueProducers combined)"
| "desired_keys AnalyticsEngineDatasets combined =
     keys (combined_analyticsEngineDatasets combined)"

text \<open>
  A small run: a fixture with two KV namespaces and a build command, no features, a
  remote project without bindings, and a platform that answers the update with what it
  was sent.
\<close>

definition example_constants :: constants where
  "example_constants =
     \<lparr> DEPLOYMENT_TIMEOUT = 1000, DEPLOYMENT_CHECK_API_FAILURES_THRESHOLD = 2,
       PROVISIONER_TIMEOUT = 1000 \<rparr>"

definition example_host :: host where
  "example_host = \<lparr> api = ''https://api.example'', dash = ''https://dash.example'' \<rparr>"

definition example_credentials :: credentials where
  "example_credentials =
     \<lparr> CLOUDFLARE_ACCOUNT_ID = ''account'', CLOUDFLARE_API_TOKEN = ''token'',
       PROJECT_NAME = ''project'', GIT_REPO = Some ''git@example:pages.git'' \<rparr>"

definition example_fixture :: fixtureConfig where
  "example_fixture =
     \<lparr> fixture_buildConfig =
         \<lparr> buildCommand = Some ''npm run build'', buildOutputDirectory = Some ''dist'',
           rootDirectory = Some ''/'' \<rparr>,
       compatibilityDate = ''2023-05-01'',
       compatibilityFlags = [],
       fixture_deploymentConfig =
         \<lparr> environmentVariables = Some [(''MODE'', ''test'')],
           d1Databases = None,
           durableObjectNamespaces = None,
           kvNamespaces =
             Some [(''CACHE'', case_environment \<lparr> descriptor_id = ''c0'' \<rparr>
                                 \<lparr> descriptor_id = ''c1'' \<rparr> \<lparr> descriptor_id = ''c2'' \<rparr>),
                   (''ASSETS'', case_environment \<lparr> descriptor_id = ''a0'' \<rparr>
                                  \<lparr> descriptor_id = ''a1'' \<rparr> \<lparr> descriptor_id = ''a2'' \<rparr>)],
           r2Buckets = None,
           services = None,
           queueProducers = None,
           analyticsEngineDatasets = None \<rparr> \<rparr>"

definition example_fixture_without_command :: fixtureConfig where
  "example_fixture_without_command =
     example_fixture
       \<lparr> fixture_buildConfig :=
           \<lparr> buildCommand = None, buildOutputDirectory = Some ''dist'',
             rootDirectory = Some ''/'' \<rparr> \<rparr>"

definition example_fixture_empty_command :: fixtureConfig where
  "example_fixture_empty_command =
     example_fixture
       \<lparr> fixture_buildConfig :=
           \<lparr> buildCommand = Some [], buildOutputDirectory = Some [],
             rootDirectory = Some [] \<rparr> \<rparr>"

definition example_initial_project :: project where
  "example_initial_project =
     \<lparr> project_build_config =
         \<lparr> build_command = ''old build'', destination_dir = ''out'', root_dir = ''/'' \<rparr>,
       deployment_configs_preview =
         \<lparr> compatibility_date = ''2022-01-01'',
           compatibility_flags = [],
           env_vars = None,
           d1_databases = None,
           durable_object_namespaces = None,
           kv_namespaces = None,
           r2_buckets = None,
           remote_services = None,
           queue_producers = None,
           analytics_engine_datasets = None \<rparr> \<rparr>"

definition example_platform :: platform where
  "example_platform =
     \<lparr> get_project = Some example_initial_project, patch_project = Some \<rparr>"

text \<open>A platform that answers with the KV namespaces in the opposite order.\<close>

definition reorder_kv_namespaces :: "project \<Rightarrow> project" where
  "reorder_kv_namespaces project =
     project
       \<lparr> deployment_configs_preview :=
           (deployment_configs_preview project)
             \<lparr> kv_namespaces :=
                 map_option rev (kv_namespaces (deployment_configs_preview project)) \<rparr> \<rparr>"

definition example_reordering_platform :: platform where
  "example_reordering_platform =
     \<lparr> get_project = Some example_initial_project,
       patch_project = Some \<circ> reorder_kv_namespaces \<rparr>"

text \<open>A platform that answers with another id for every KV namespace.\<close>

definition revalue_kv_namespaces :: "project \<Rightarrow> project" where
  "revalue_kv_namespaces project =
     project
       \<lparr> deployment_configs_preview :=
           (deployment_configs_preview project)
             \<lparr> kv_namespaces :=
                 map_option
                   (map (\<lambda>(name, v).
                          (name, map_option (\<lambda>binding. binding\<lparr> namespace_id := ''other'' \<rparr>) v)))
                   (kv_namespaces (deployment_configs_preview project)) \<rparr> \<rparr>"

definition example_revaluing_platform :: platform where
  "example_revaluing_platform =
     \<lparr> get_project = Some example_initial_project,
       patch_project = Some \<circ> revalue_kv_namespaces \<rparr>"


definition example_world :: world where
  "example_world =
     \<lparr> get_project = Some example_initial_project,
       patch_project = Some,
       config = example_constants,
       HOSTS = case_environment None (Some example_host) (Some example_host),
       PAGES_PROJECTS =
         case_environment (case_trigger None None)
           (case_trigger None (Some example_credentials))
           (case_trigger None (Some example_credentials)),
       encodeURIComponent = id,
       git_push_succeeds = True,
       created_hook_id = Some ''hook-1'',
       acquired_mutex = Some ''lease-1'',
       fired_deployment_id = Some ''deployment-1'',
       release_succeeds = False,
       startDeployment = 0,
       deployment_schedule =
         [Tick 100,
          Settled (Some \<lparr> url = ''https://e2e.example'', latest_stage_name = ''build'',
                          latest_stage_status = ''active'' \<rparr>),
          Tick 200,
          Settled (Some \<lparr> url = ''https://e2e.example'', latest_stage_name = ''deploy'',
                          latest_stage_status = ''success'' \<rparr>)],
       startProvisioner = 300,
       provisioner_schedule = [Tick 400, Settled None, Tick 500, Settled (Some False)] \<rparr>"


section \<open>Properties of objects\<close>

lemma map_fst_obj_replace: "map fst (obj_replace k v ps) = map fst ps"
  by (induction ps) auto

lemma set_obj_insert: "set (obj_insert k v ps) = insert (k, v) (set ps)"
  by (induction ps) (auto split: if_splits)

lemma map_of_obj_replace:
  "map_of (obj_replace k v ps) x = (if x = k \<and> k \<in> dom (map_of ps) then Some v else map_of ps x)"
  by (induction ps) (auto simp: dom_def)

lemma map_of_obj_insert:
  "k \<notin> dom (map_of ps) \<Longrightarrow> map_of (obj_insert k v ps) x = (if x = k then Some v else map_of ps x)"
  by (induction ps) (auto simp: dom_def split: if_splits)

lemma get_obj_set: "get (obj_set k v ps) = (get ps)(k \<mapsto> v)"
  by (auto simp: get_def obj_set_def map_of_obj_replace map_of_obj_insert fun_eq_iff
      dom_map_of_conv_image_fst)

lemma distinct_obj_insert:
  "k \<notin> fst ` set ps \<Longrightarrow> distinct (map fst ps) \<Longrightarrow> distinct (map fst (obj_insert k v ps))"
  by (induction ps) (auto simp: set_obj_insert)

lemma wf_obj_set: "wf_obj ps \<Longrightarrow> wf_obj (obj_set k v ps)"
  by (simp add: wf_obj_def obj_set_def map_fst_obj_replace distinct_obj_insert)

lemma foldl_obj_set:
  "wf_obj ps \<Longrightarrow>
   wf_obj (foldl (\<lambda>ps (k, v). obj_set k v ps) ps es) \<and>
   get (foldl (\<lambda>ps (k, v). obj_set k v ps) ps es) = get ps ++ map_of (rev es)"
proof (induction es arbitrary: ps)
  case Nil
  then show ?case by simp
next
  case (Cons e es)
  obtain k v where e: "e = (k, v)" by (cases e)
  have "wf_obj (obj_set k v ps)" using Cons.prems by (rule wf_obj_set)
  from Cons.IH[OF this] show ?case
    by (auto simp: e get_obj_set fun_eq_iff map_add_def split: option.splits)
qed

lemma wf_fromEntries: "wf_obj (fromEntries es)"
  using foldl_obj_set[of "[]" es] by (simp add: fromEntries_def wf_obj_def)

lemma get_fromEntries: "get (fromEntries es) = map_of (rev es)"
  using foldl_obj_set[of "[]" es] by (simp add: fromEntries_def wf_obj_def get_def)

lemma map_of_rev_distinct: "distinct (map fst ps) \<Longrightarrow> map_of (rev ps) = map_of ps"
  by (subst map_of_inject_set) (simp_all add: rev_map[symmetric])

lemma get_fromEntries_wf: "wf_obj es \<Longrightarrow> get (fromEntries es) = get es"
  by (simp only: get_fromEntries) (simp add: get_def wf_obj_def map_of_rev_distinct)

lemma wf_spread: "wf_obj (spread a b)"
  by (simp add: spread_def wf_fromEntries)

lemma get_spread:
  "get (spread a b) = map_of (rev (or_empty a)) ++ map_of (rev (or_empty b))"
  by (simp add: spread_def get_fromEntries entries_def)

lemma get_spread_wf:
  "wf_obj a \<Longrightarrow> wf_obj b \<Longrightarrow> get (spread (Some a) (Some b)) = get a ++ get b"
  by (simp only: get_spread) (simp add: or_empty_def get_def wf_obj_def map_of_rev_distinct)

lemma keys_spread: "set (keys (spread a b)) = set (keys (or_empty a)) \<union> set (keys (or_empty b))"
proof -
  have "set (keys (spread a b)) = dom (get (spread a b))"
    by (simp add: keys_def get_def dom_map_of_conv_image_fst)
  also have "\<dots> = set (keys (or_empty a)) \<union> set (keys (or_empty b))"
    by (auto simp: get_spread keys_def dom_map_of_conv_image_fst)
  finally show ?thesis .
qed




section \<open>The update payload\<close>

lemma map_of_rev_nulls:
  "map_of (rev (map (\<lambda>name. (name, None)) ks)) k = (if k \<in> set ks then Some None else None)"
  by (induction ks) (auto simp: map_add_def split: option.splits)

lemma map_of_desired_entries:
  "map_of (desired_entries f desired) k = map_option (\<lambda>v. Some (f v)) (map_of desired k)"
  by (induction desired) (auto simp: desired_entries_def entries_def)

lemma wf_desired_entries: "wf_obj desired \<Longrightarrow> wf_obj (desired_entries f desired)"
  by (simp add: wf_obj_def desired_entries_def entries_def case_prod_unfold comp_def)

lemma spec_category_patch_cases:
  "spec_category_patch remote_keys desired k =
     (case desired k of
        Some v \<Rightarrow> Some (Some v)
      | None \<Rightarrow> if k \<in> remote_keys then Some None else None)"
  by (simp add: spec_category_patch_def map_add_def split: option.splits)

lemma get_category_payload:
  assumes "wf_obj desired"
  shows "get (category_payload initial f desired) =
         spec_category_patch (set (keys (or_empty initial))) (map_option f \<circ> get desired)"
proof
  fix k
  have "get (category_payload initial f desired) k =
        (get (fromEntries (map (\<lambda>name. (name, None)) (keys (or_empty initial))))
           ++ get (fromEntries (desired_entries f desired))) k"
    unfolding category_payload_def by (simp add: get_spread_wf wf_fromEntries)
  also have "\<dots> = (map_of (rev (map (\<lambda>name. (name, None)) (keys (or_empty initial))))
           ++ map_of (desired_entries f desired)) k"
    using wf_desired_entries[OF assms, of f]
    by (simp add: get_fromEntries map_of_rev_distinct wf_obj_def)
  also have "\<dots> =
      spec_category_patch (set (keys (or_empty initial))) (map_option f \<circ> get desired) k"
    by (simp add: spec_category_patch_def map_add_def map_of_rev_nulls map_of_desired_entries
        get_def option.map_comp comp_def split: option.splits)
  finally show "get (category_payload initial f desired) k =
      spec_category_patch (set (keys (or_empty initial))) (map_option f \<circ> get desired) k" .
qed

text \<open>
  The scenario of the specification: the remote project has the KV namespace \<open>OLD\<close>,
  the desired configuration has \<open>CACHE\<close>.
\<close>

lemma category_payload_scenario:
  "category_payload (Some [(''OLD'', Some \<lparr> namespace_id = ''zzz'' \<rparr>)])
     (namespace_remote Production)
     [(''CACHE'', case_environment \<lparr> descriptor_id = ''abc'' \<rparr> \<lparr> descriptor_id = ''abc'' \<rparr>
                    \<lparr> descriptor_id = ''abc'' \<rparr>)]
   = [(''OLD'', None), (''CACHE'', Some \<lparr> namespace_id = ''abc'' \<rparr>)]"
  by (simp add: category_payload_def spread_def fromEntries_def entries_def or_empty_def
      keys_def desired_entries_def namespace_remote_def obj_set_def comes_before_def
      array_index_def is_digit_def)

text \<open>
  The remote representation of each kind of binding, as the payload's
  \<^verbatim>\<open>Object.entries(...).map\<close> writes it.
\<close>

lemma remote_representations:
  "env_var_remote = plain_text"
  "d1_remote env = (\<lambda>v. v env)"
  "namespace_remote env = (\<lambda>v. \<lparr> namespace_id = descriptor_id (v env) \<rparr>)"
  "r2_remote env = (\<lambda>v. v env)"
  "service_remote env =
     (\<lambda>v. \<lparr> service = service_name (v env), service_environment = service_env (v env) \<rparr>)"
  "queue_remote env = (\<lambda>v. v env)"
  "dataset_remote env = (\<lambda>v. \<lparr> dataset = descriptor_name (v env) \<rparr>)"
  by (rule ext, simp add: env_var_remote_def d1_remote_def namespace_remote_def r2_remote_def
        service_remote_def queue_remote_def dataset_remote_def)+

text \<open>
  Claim C1. For each of the eight categories of the preview configuration (the
  environment variables and the seven kinds of binding), the category of the update
  payload is the patch that the specification describes, computed from the keys of that
  category in the fetched project and from the combined configuration: a key of the
  combined configuration has its remote representation in the target environment, a key
  that only the fetched project has is \<^verbatim>\<open>null\<close>, and a key that neither has is not
  in the payload. The remote representation is \<^verbatim>\<open>{type: "plain_text", value}\<close> for
  an environment variable, \<^verbatim>\<open>value[environment]\<close> for a D1 database, an R2 bucket
  and a queue producer, \<^verbatim>\<open>{namespace_id: value[environment].id}\<close> for a Durable
  Object namespace and a KV namespace,
  \<^verbatim>\<open>{service: value[environment].name, environment: value[environment].environment}\<close>
  for a service, and \<^verbatim>\<open>{dataset: value[environment].name}\<close> for an analytics
  dataset.
\<close>

theorem C1_update_payload_is_patch:
  "let combined =
         combinedDeploymentConfig (fixture_deploymentConfig fixtureConfig) featuresConfig;
       initial = deployment_configs_preview initialProject;
       payload =
         deployment_configs_preview (updatePayload env initialProject fixtureConfig combined)
   in
     map_option get (env_vars payload) =
       Some (spec_category_patch (set (keys (or_empty (env_vars initial))))
               (map_option plain_text \<circ> get (combined_environmentVariables combined)))
   \<and> map_option get (d1_databases payload) =
       Some (spec_category_patch (set (keys (or_empty (d1_databases initial))))
               (map_option (\<lambda>v. v env) \<circ> get (combined_d1Databases combined)))
   \<and> map_option get (durable_object_namespaces payload) =
       Some (spec_category_patch (set (keys (or_empty (durable_object_namespaces initial))))
               (map_option (\<lambda>v. \<lparr> namespace_id = descriptor_id (v env) \<rparr>)
                  \<circ> get (combined_durableObjectNamespaces combined)))
   \<and> map_option get (kv_namespaces payload) =
       Some (spec_category_patch (set (keys (or_empty (kv_namespaces initial))))
               (map_option (\<lambda>v. \<lparr> namespace_id = descriptor_id (v env) \<rparr>)
                  \<circ> get (combined_kvNamespaces combined)))
   \<and> map_option get (r2_buckets payload) =
       Some (spec_category_patch (set (keys (or_empty (r2_buckets initial))))
               (map_option (\<lambda>v. v env) \<circ> get (combined_r2Buckets combined)))
   \<and> map_option get (remote_services payload) =
       Some (spec_category_patch (set (keys (or_empty (remote_services initial))))
               (map_option
                  (\<lambda>v. \<lparr> service = service_name (v env),
                         service_environment = service_env (v env) \<rparr>)
                  \<circ> get (combined_services combined)))
   \<and> map_option get (queue_producers payload) =
       Some (spec_category_patch (set (keys (or_empty (queue_producers initial))))
               (map_option (\<lambda>v. v env) \<circ> get (combined_queueProducers combined)))
   \<and> map_option get (analytics_engine_datasets payload) =
       Some (spec_category_patch (set (keys (or_empty (analytics_engine_datasets initial))))
               (map_option (\<lambda>v. \<lparr> dataset = descriptor_name (v env) \<rparr>)
                  \<circ> get (combined_analyticsEngineDatasets combined)))"
  by (simp add: Let_def updatePayload_def combinedDeploymentConfig_def get_category_payload
      wf_spread remote_representations)


section \<open>The merged configuration\<close>

text \<open>
  The other categories are merged as the specification says. The merged object and the
  union of the specification hold the same value under every key.
\<close>

lemma map_of_rev_spread:
  "map_of (rev (spread a b)) = map_of (rev (or_empty a)) ++ map_of (rev (or_empty b))"
  using wf_spread[of a b] get_spread[of a b]
  by (simp add: wf_obj_def map_of_rev_distinct get_def)

lemma map_of_rev_foldl_spread:
  "map_of (rev (foldl (\<lambda>acc x. spread (Some acc) x) a xs))
     = foldl (\<lambda>m x. m ++ map_of (rev (or_empty x))) (map_of (rev a)) xs"
  by (induction xs arbitrary: a) (simp_all add: map_of_rev_spread or_empty_def)

lemma foldl_map_add_shift:
  "foldl (\<lambda>m x. m ++ g x) (a ++ b) xs = a ++ foldl (\<lambda>m x. m ++ g x) b xs"
proof (induction xs arbitrary: b)
  case Nil
  show ?case by simp
next
  case (Cons x xs)
  have "foldl (\<lambda>m x. m ++ g x) (a ++ b) (x # xs)
          = foldl (\<lambda>m x. m ++ g x) (a ++ (b ++ g x)) xs"
    by simp
  also have "\<dots> = a ++ foldl (\<lambda>m x. m ++ g x) (b ++ g x) xs"
    by (rule Cons.IH)
  finally show ?case by simp
qed

lemma spread_or_empty: "spread (Some (or_empty a)) b = spread a b"
  by (simp add: spread_def or_empty_def)

lemma foldl_addFeature_category:
  assumes "\<And>acc c. sel (addFeature acc c) = Some (spread (sel acc) (sel c))"
  shows "or_empty (sel (foldl addFeature acc cfgs))
           = foldl (\<lambda>a x. spread (Some a) x) (or_empty (sel acc)) (map sel cfgs)"
proof (induction cfgs arbitrary: acc)
  case Nil
  then show ?case by simp
next
  case (Cons c cfgs)
  have "or_empty (sel (addFeature acc c)) = spread (Some (or_empty (sel acc))) (sel c)"
    by (simp add: assms spread_or_empty) (simp add: or_empty_def)
  with Cons.IH[of "addFeature acc c"] show ?case by simp
qed

lemma merged_category:
  assumes "\<And>acc c. sel (addFeature acc c) = Some (spread (sel acc) (sel c))"
    and "sel initialFeaturesConfig = Some []"
  shows "map_of (rev (spread (sel fixtureConfig) (sel (setUpFeatures cfgs))))
           = map_of (rev (spec_merge_category (sel fixtureConfig # map sel cfgs)))"
proof -
  let ?g = "\<lambda>x. map_of (rev (or_empty x))"
  have "map_of (rev (spread (sel fixtureConfig) (sel (setUpFeatures cfgs))))
          = ?g (sel fixtureConfig)
              ++ map_of (rev (foldl (\<lambda>a x. spread (Some a) x) [] (map sel cfgs)))"
    using foldl_addFeature_category[of sel initialFeaturesConfig cfgs, OF assms(1)]
    by (simp add: map_of_rev_spread setUpFeatures_def assms(2)) (simp add: or_empty_def)
  also have "\<dots> = ?g (sel fixtureConfig)
              ++ foldl (\<lambda>m x. m ++ ?g x) Map.empty (map sel cfgs)"
    by (simp add: map_of_rev_foldl_spread)
  also have "\<dots> = foldl (\<lambda>m x. m ++ ?g x) (?g (sel fixtureConfig) ++ Map.empty) (map sel cfgs)"
    by (simp only: foldl_map_add_shift)
  also have "\<dots> = map_of (rev (spec_merge_category (sel fixtureConfig # map sel cfgs)))"
    by (simp add: spec_merge_category_def map_of_rev_foldl_spread map_of_rev_spread)
       (simp add: or_empty_def)
  finally show ?thesis .
qed

lemma get_spread_rev: "get (spread a b) = map_of (rev (spread a b))"
  using wf_spread[of a b] by (simp add: get_def wf_obj_def map_of_rev_distinct)

lemma wf_foldl_spread:
  "wf_obj a \<Longrightarrow> wf_obj (foldl (\<lambda>acc x. spread (Some acc) x) a xs)"
  by (induction xs arbitrary: a) (simp_all add: wf_spread)

lemma get_spec_merge_category:
  "get (spec_merge_category xs) = map_of (rev (spec_merge_category xs))"
  using wf_foldl_spread[of "[]" xs]
  by (simp add: spec_merge_category_def get_def wf_obj_def map_of_rev_distinct)

lemma merged_categories_other_than_analytics:
  "get (combined_environmentVariables (mergedDeploymentConfig fixtureConfig cfgs))
     = get (spec_merge_category
              (environmentVariables fixtureConfig # map environmentVariables cfgs))"
  "get (combined_d1Databases (mergedDeploymentConfig fixtureConfig cfgs))
     = get (spec_merge_category (d1Databases fixtureConfig # map d1Databases cfgs))"
  "get (combined_durableObjectNamespaces (mergedDeploymentConfig fixtureConfig cfgs))
     = get (spec_merge_category
              (durableObjectNamespaces fixtureConfig # map durableObjectNamespaces cfgs))"
  "get (combined_kvNamespaces (mergedDeploymentConfig fixtureConfig cfgs))
     = get (spec_merge_category (kvNamespaces fixtureConfig # map kvNamespaces cfgs))"
  "get (combined_r2Buckets (mergedDeploymentConfig fixtureConfig cfgs))
     = get (spec_merge_category (r2Buckets fixtureConfig # map r2Buckets cfgs))"
  "get (combined_services (mergedDeploymentConfig fixtureConfig cfgs))
     = get (spec_merge_category (services fixtureConfig # map services cfgs))"
  "get (combined_queueProducers (mergedDeploymentConfig fixtureConfig cfgs))
     = get (spec_merge_category (queueProducers fixtureConfig # map queueProducers cfgs))"
  unfolding get_spec_merge_category
  by (simp_all add: mergedDeploymentConfig_def combinedDeploymentConfig_def get_spread_rev
      merged_category addFeature_def initialFeaturesConfig_def)


text \<open>
  Claim C4. The merged configuration is not the key-wise union of the inputs for the
  analytics datasets: \<^verbatim>\<open>setUpFeatures\<close> never copies a feature's
  \<^verbatim>\<open>analyticsEngineDatasets\<close>. For a fixture without bindings and one feature that
  binds the dataset \<open>AE\<close>, the merged configuration has no key \<open>AE\<close>, where the
  union of the specification has the feature's descriptor.
\<close>

theorem C4_features_analytics_datasets_dropped:
  "get (combined_analyticsEngineDatasets
          (mergedDeploymentConfig
             \<lparr> environmentVariables = None, d1Databases = None,
               durableObjectNamespaces = None, kvNamespaces = None, r2Buckets = None,
               services = None, queueProducers = None, analyticsEngineDatasets = None \<rparr>
             [\<lparr> environmentVariables = None, d1Databases = None,
                durableObjectNamespaces = None, kvNamespaces = None, r2Buckets = None,
                services = None, queueProducers = None,
                analyticsEngineDatasets =
                  Some [(''AE'', case_environment \<lparr> descriptor_name = ''local'' \<rparr>
                                   \<lparr> descriptor_name = ''staging'' \<rparr>
                                   \<lparr> descriptor_name = ''production'' \<rparr>)] \<rparr>]))
     ''AE'' = None
   \<and> get (spec_merge_category
            [None,
             Some [(''AE'', case_environment \<lparr> descriptor_name = ''local'' \<rparr>
                              \<lparr> descriptor_name = ''staging'' \<rparr>
                              \<lparr> descriptor_name = ''production'' \<rparr>)]])
       ''AE''
     = Some (case_environment \<lparr> descriptor_name = ''local'' \<rparr>
               \<lparr> descriptor_name = ''staging'' \<rparr> \<lparr> descriptor_name = ''production'' \<rparr>)"
  by (simp add: mergedDeploymentConfig_def combinedDeploymentConfig_def setUpFeatures_def
      addFeature_def initialFeaturesConfig_def spec_merge_category_def spread_def or_empty_def
      fromEntries_def entries_def get_def obj_set_def comes_before_def array_index_def
      is_digit_def)


section \<open>The deployment poller\<close>

lemmas object_defs =
  spread_def fromEntries_def entries_def or_empty_def keys_def get_def obj_set_def
  comes_before_def array_index_def is_digit_def desired_entries_def category_payload_def

lemmas example_defs =
  example_constants_def example_host_def example_credentials_def example_fixture_def
  example_fixture_without_command_def example_fixture_empty_command_def
  example_initial_project_def example_platform_def example_reordering_platform_def
  reorder_kv_namespaces_def example_world_def

lemmas reconcile_defs =
  configureProject_def verifyProject_def verified_fields_def updatePayload_def
  combinedDeploymentConfig_def initialFeaturesConfig_def category_matches_def
  env_var_remote_def d1_remote_def namespace_remote_def r2_remote_def service_remote_def
  queue_remote_def dataset_remote_def or_empty_string_def

lemmas poller_defs =
  deploymentPoller_def deploymentPollerStart_def deploymentTick_def deploymentSettled_def
  notOkResponse_def logger_def resolveWith_def rejectWith_def dashboard_link_def
  waitForDeploymentToBeProvisioned_def provisionerStart_def provisionerTick_def
  provisionerSettled_def

lemma outcome_resolveWith:
  "outcome (resolveWith v s) = (if outcome s = Pending then Success v else outcome s)"
  by (simp add: resolveWith_def)

lemma outcome_rejectWith:
  "outcome (rejectWith e s) = (if outcome s = Pending then Failure e else outcome s)"
  by (simp add: rejectWith_def)

lemma outcome_logger: "outcome (logger l s) = outcome s"
  by (simp add: logger_def)

text \<open>A request or parse error never settles the awaited promise.\<close>

lemma outcome_notOkResponse: "outcome (notOkResponse c s) = outcome s"
  by (simp add: notOkResponse_def Let_def outcome_logger)

lemma notOkResponse_counts: "notOkResponses (notOkResponse c s) = notOkResponses s + 1"
  by (simp add: notOkResponse_def Let_def logger_def)

lemma deploymentStep_sticky:
  "outcome s \<noteq> Pending \<Longrightarrow> outcome (deploymentStep c h p ident start s ev) = outcome s"
  by (cases ev)
     (auto simp: deploymentTick_def deploymentSettled_def Let_def outcome_resolveWith
        outcome_rejectWith outcome_logger outcome_notOkResponse split: option.splits)

lemma deployment_run_sticky:
  "outcome s \<noteq> Pending \<Longrightarrow>
   outcome (foldl (deploymentStep c h p ident start) s evs) = outcome s"
  by (induction evs arbitrary: s) (simp_all add: deploymentStep_sticky)

lemma deploymentStep_pending_active:
  "(outcome s = Pending \<longrightarrow> interval_active s) \<Longrightarrow>
   outcome (deploymentStep c h p ident start s ev) = Pending \<longrightarrow>
   interval_active (deploymentStep c h p ident start s ev)"
  by (cases ev)
     (auto simp: deploymentTick_def deploymentSettled_def Let_def resolveWith_def rejectWith_def
        logger_def notOkResponse_def split: option.splits if_splits)

lemma deployment_run_pending_active:
  "(outcome s = Pending \<longrightarrow> interval_active s) \<Longrightarrow>
   outcome (foldl (deploymentStep c h p ident start) s evs) = Pending \<longrightarrow>
   interval_active (foldl (deploymentStep c h p ident start) s evs)"
proof (induction evs arbitrary: s)
  case Nil
  then show ?case by simp
next
  case (Cons ev evs)
  show ?case
    using Cons.IH[OF deploymentStep_pending_active[OF Cons.prems]] by simp
qed

text \<open>
  Claim C2. A body that is outstanding gets a parsed response (the url and the status are
  not empty) while the promise is pending. The promise is then resolved with the url
  exactly when the latest stage is \<open>deploy\<close> with status \<open>success\<close>; otherwise it is
  rejected, with the deployment's id, the stage, the status and the dashboard link,
  exactly when the status is none of \<open>idle\<close>, \<open>active\<close>, \<open>success\<close>; otherwise it
  stays pending.
\<close>

theorem C2_classification_three_way:
  assumes "url r \<noteq> []" and "latest_stage_status r \<noteq> []"
    and "0 < in_flight s" and "outcome s = Pending"
  shows "outcome (deploymentSettled c h p ident (Some r) s) =
     (if latest_stage_name r = ''deploy'' \<and> latest_stage_status r = ''success''
      then Success (url r)
      else if latest_stage_status r \<notin> {''idle'', ''active'', ''success''}
      then Failure (DeploymentFailed ident (latest_stage_name r) (latest_stage_status r)
                      (dash h @ ''/'' @ CLOUDFLARE_ACCOUNT_ID p @ ''/pages/view/''
                         @ PROJECT_NAME p @ ''/'' @ ident))
      else Pending)"
  using assms
  by (simp add: deploymentSettled_def Let_def outcome_resolveWith outcome_rejectWith
      outcome_logger dashboard_link_def)

theorem C2_classification_three_way_witness:
  "url \<lparr> url = ''https://e2e.example'', latest_stage_name = ''build'',
         latest_stage_status = ''success'' \<rparr> \<noteq> []
   \<and> latest_stage_status \<lparr> url = ''https://e2e.example'', latest_stage_name = ''build'',
         latest_stage_status = ''success'' \<rparr> \<noteq> []
   \<and> 0 < in_flight (deploymentPoller example_constants example_host example_credentials
                       ''deployment-1'' 0 [Tick 100])
   \<and> outcome (deploymentPoller example_constants example_host example_credentials
                ''deployment-1'' 0 [Tick 100]) = Pending
   \<and> outcome (deploymentSettled example_constants example_host example_credentials
                ''deployment-1''
                (Some \<lparr> url = ''https://e2e.example'', latest_stage_name = ''build'',
                        latest_stage_status = ''success'' \<rparr>)
                (deploymentPoller example_constants example_host example_credentials
                   ''deployment-1'' 0 [Tick 100])) = Pending"
proof -
  let ?r = "\<lparr> url = ''https://e2e.example'', latest_stage_name = ''build'',
              latest_stage_status = ''success'' \<rparr>"
  let ?s = "deploymentPoller example_constants example_host example_credentials
              ''deployment-1'' 0 [Tick 100]"
  have h1: "url ?r \<noteq> []" and h2: "latest_stage_status ?r \<noteq> []" by simp_all
  have h3: "0 < in_flight ?s" and h4: "outcome ?s = Pending"
    by (simp_all add: poller_defs example_defs Let_def)
  show ?thesis
    using h1 h2 h3 h4
      C2_classification_three_way[OF h1 h2 h3 h4, of example_constants example_host
        example_credentials "''deployment-1''"]
    by simp
qed

text \<open>
  Claim C3. With a threshold of two, the third request that fails takes
  \<^verbatim>\<open>notOkResponses\<close> above the threshold. The source then throws inside the detached
  \<^verbatim>\<open>async\<close> body: that rejects the body's own promise, which nothing handles. It does
  not call \<^verbatim>\<open>rejectWithDeploymentFailure\<close>, so the awaited promise stays pending
  and the interval keeps running.
\<close>

theorem C3_threshold_breach_leaves_promise_pending:
  "outcome (deploymentPoller example_constants example_host example_credentials
              ''deployment-1'' 0
              [Tick 100, Settled None, Tick 200, Settled None, Tick 300, Settled None])
     = Pending
   \<and> interval_active (deploymentPoller example_constants example_host example_credentials
              ''deployment-1'' 0
              [Tick 100, Settled None, Tick 200, Settled None, Tick 300, Settled None])
   \<and> notOkResponses (deploymentPoller example_constants example_host example_credentials
              ''deployment-1'' 0
              [Tick 100, Settled None, Tick 200, Settled None, Tick 300, Settled None])
     = 3
   \<and> DEPLOYMENT_CHECK_API_FAILURES_THRESHOLD example_constants = 2
   \<and> unhandled_rejections (deploymentPoller example_constants example_host
              example_credentials ''deployment-1'' 0
              [Tick 100, Settled None, Tick 200, Settled None, Tick 300, Settled None])
     = [NotOkResponse 3 2]"
  by (simp add: poller_defs example_defs Let_def)

text \<open>
  Claim C5. Whatever happened before, as long as the promise is still pending, the first
  tick whose clock reading exceeds the start by more than \<^verbatim>\<open>DEPLOYMENT_TIMEOUT\<close>
  rejects the promise with the timeout error, in the callback itself and before the
  callback starts its request; nothing that happens later changes the outcome.
\<close>

theorem C5_timeout_failure:
  assumes "outcome (deploymentPoller c h p ident start evs) = Pending"
    and "start + DEPLOYMENT_TIMEOUT c < now"
  shows "outcome (deploymentPoller c h p ident start (evs @ Tick now # evs')) =
           Failure (DeploymentTimeout (DEPLOYMENT_TIMEOUT c))"
proof -
  let ?s = "deploymentPoller c h p ident start evs"
  have act: "interval_active ?s"
    using deployment_run_pending_active[of deploymentPollerStart c h p ident start evs] assms(1)
    by (simp add: deploymentPoller_def deploymentPollerStart_def)
  have "outcome (deploymentTick c start now ?s)
          = Failure (DeploymentTimeout (DEPLOYMENT_TIMEOUT c))"
    using act assms by (simp add: deploymentTick_def Let_def outcome_rejectWith)
  then show ?thesis
    using deployment_run_sticky[of "deploymentTick c start now ?s" c h p ident start evs']
    by (simp add: deploymentPoller_def)
qed

theorem C5_timeout_failure_witness:
  "outcome (deploymentPoller example_constants example_host example_credentials
              ''deployment-1'' 0 [Tick 100, Settled None, Tick 200]) = Pending
   \<and> 0 + DEPLOYMENT_TIMEOUT example_constants < 1100
   \<and> outcome (deploymentPoller example_constants example_host example_credentials
                ''deployment-1'' 0
                ([Tick 100, Settled None, Tick 200] @ Tick 1100
                   # [Settled (Some \<lparr> url = ''https://e2e.example'',
                                       latest_stage_name = ''deploy'',
                                       latest_stage_status = ''success'' \<rparr>)]))
       = Failure (DeploymentTimeout 1000)"
proof -
  have h1: "outcome (deploymentPoller example_constants example_host example_credentials
              ''deployment-1'' 0 [Tick 100, Settled None, Tick 200]) = Pending"
    by (simp add: poller_defs example_defs Let_def)
  have h2: "0 + DEPLOYMENT_TIMEOUT example_constants < 1100"
    by (simp add: example_defs)
  have h3: "DEPLOYMENT_TIMEOUT example_constants = 1000"
    by (simp add: example_defs)
  show ?thesis
    using h1 h2 h3 C5_timeout_failure[OF h1 h2]
    by simp
qed


section \<open>The edge-availability poller\<close>

lemma provisionerStep_outcomes:
  "outcome s \<in> {Pending, Success (), Failure (ProvisionerTimeout (PROVISIONER_TIMEOUT c))} \<Longrightarrow>
   outcome (provisionerStep c start s ev)
     \<in> {Pending, Success (), Failure (ProvisionerTimeout (PROVISIONER_TIMEOUT c))}"
  by (cases ev)
     (auto simp: provisionerTick_def provisionerSettled_def Let_def outcome_resolveWith
        outcome_rejectWith outcome_logger split: option.splits if_splits)

lemma provisioner_run_outcomes:
  "outcome s \<in> {Pending, Success (), Failure (ProvisionerTimeout (PROVISIONER_TIMEOUT c))} \<Longrightarrow>
   outcome (foldl (provisionerStep c start) s evs)
     \<in> {Pending, Success (), Failure (ProvisionerTimeout (PROVISIONER_TIMEOUT c))}"
proof (induction evs arbitrary: s)
  case Nil
  then show ?case by simp
next
  case (Cons ev evs)
  show ?case
    using Cons.IH[OF provisionerStep_outcomes[OF Cons.prems]] by simp
qed

lemma provisionerStep_sticky:
  "outcome s \<noteq> Pending \<Longrightarrow> outcome (provisionerStep c start s ev) = outcome s"
  by (cases ev)
     (auto simp: provisionerTick_def provisionerSettled_def Let_def outcome_resolveWith
        outcome_rejectWith outcome_logger split: option.splits)

lemma provisioner_run_sticky:
  "outcome s \<noteq> Pending \<Longrightarrow> outcome (foldl (provisionerStep c start) s evs) = outcome s"
  by (induction evs arbitrary: s) (simp_all add: provisionerStep_sticky)

lemma provisionerStep_not_resolved:
  "outcome s \<noteq> Success () \<Longrightarrow> ev \<noteq> Settled (Some False) \<Longrightarrow>
   outcome (provisionerStep c start s ev) \<noteq> Success ()"
  by (cases ev)
     (auto simp: provisionerTick_def provisionerSettled_def Let_def outcome_resolveWith
        outcome_rejectWith outcome_logger split: option.splits if_splits)

lemma provisioner_run_not_resolved:
  "outcome s \<noteq> Success () \<Longrightarrow> Settled (Some False) \<notin> set evs \<Longrightarrow>
   outcome (foldl (provisionerStep c start) s evs) \<noteq> Success ()"
proof (induction evs arbitrary: s)
  case Nil
  then show ?case by simp
next
  case (Cons ev evs)
  from Cons.prems have "outcome (provisionerStep c start s ev) \<noteq> Success ()"
    by (intro provisionerStep_not_resolved) auto
  from Cons.IH[OF this] Cons.prems(2) show ?case by simp
qed

text \<open>
  Claim C7. A probe that throws changes neither the promise nor the interval, and there is
  no counter for it to change: the body logs at debug level and ends. A probe that is
  classified as not yet provisioned does the same, so a schedule without a probe
  classified otherwise never resolves the promise. While the promise is pending, the
  first probe that is not classified as not yet provisioned resolves it, and it stays
  resolved. Over every schedule the promise is pending, resolved, or rejected with the
  error of \<^verbatim>\<open>PROVISIONER_TIMEOUT\<close>: no other failure exists.
\<close>

theorem C7_edge_poller_outcomes:
  "(0 < in_flight s \<longrightarrow>
      provisionerSettled None s
        = s\<lparr> in_flight := in_flight s - 1, logged := logged s @ [Debug] \<rparr>)
   \<and> (0 < in_flight s \<longrightarrow>
      provisionerSettled (Some True) s
        = s\<lparr> in_flight := in_flight s - 1, logged := logged s @ [Debug] \<rparr>)
   \<and> (Settled (Some False) \<notin> set evs
      \<longrightarrow> outcome (waitForDeploymentToBeProvisioned c start evs) \<noteq> Success ())
   \<and> (outcome (waitForDeploymentToBeProvisioned c start evs) = Pending
        \<and> 0 < in_flight (waitForDeploymentToBeProvisioned c start evs)
      \<longrightarrow> outcome (waitForDeploymentToBeProvisioned c start
                     (evs @ Settled (Some False) # evs')) = Success ())
   \<and> outcome (waitForDeploymentToBeProvisioned c start evs)
        \<in> {Pending, Success (), Failure (ProvisionerTimeout (PROVISIONER_TIMEOUT c))}"
proof (intro conjI impI)
  assume "0 < in_flight s"
  then show "provisionerSettled None s
        = s\<lparr> in_flight := in_flight s - 1, logged := logged s @ [Debug] \<rparr>"
    by (simp add: provisionerSettled_def logger_def Let_def)
next
  assume "0 < in_flight s"
  then show "provisionerSettled (Some True) s
        = s\<lparr> in_flight := in_flight s - 1, logged := logged s @ [Debug] \<rparr>"
    by (simp add: provisionerSettled_def logger_def Let_def)
next
  assume "Settled (Some False) \<notin> set evs"
  then show "outcome (waitForDeploymentToBeProvisioned c start evs) \<noteq> Success ()"
    unfolding waitForDeploymentToBeProvisioned_def
    by (intro provisioner_run_not_resolved) (simp_all add: provisionerStart_def)
next
  let ?s = "waitForDeploymentToBeProvisioned c start evs"
  assume a: "outcome ?s = Pending \<and> 0 < in_flight ?s"
  then have "outcome (provisionerSettled (Some False) ?s) = Success ()"
    by (simp add: provisionerSettled_def Let_def outcome_resolveWith)
  then show "outcome (waitForDeploymentToBeProvisioned c start
                     (evs @ Settled (Some False) # evs')) = Success ()"
    using provisioner_run_sticky[of "provisionerSettled (Some False) ?s" c start evs']
    by (simp add: waitForDeploymentToBeProvisioned_def)
next
  show "outcome (waitForDeploymentToBeProvisioned c start evs)
        \<in> {Pending, Success (), Failure (ProvisionerTimeout (PROVISIONER_TIMEOUT c))}"
    unfolding waitForDeploymentToBeProvisioned_def
    by (rule provisioner_run_outcomes) (simp add: provisionerStart_def)
qed

theorem C7_edge_poller_outcomes_witness:
  "0 < in_flight (waitForDeploymentToBeProvisioned example_constants 300 [Tick 400])
   \<and> provisionerSettled None
        (waitForDeploymentToBeProvisioned example_constants 300 [Tick 400])
      = \<lparr> outcome = Pending, interval_active = True, in_flight = 0, logged = [Debug] \<rparr>
   \<and> provisionerSettled (Some True)
        (waitForDeploymentToBeProvisioned example_constants 300 [Tick 400])
      = \<lparr> outcome = Pending, interval_active = True, in_flight = 0, logged = [Debug] \<rparr>
   \<and> Settled (Some False) \<notin> set [Tick 400, Settled None, Tick 500 :: bool option event]
   \<and> outcome (waitForDeploymentToBeProvisioned example_constants 300
                [Tick 400, Settled None, Tick 500]) = Pending
   \<and> 0 < in_flight (waitForDeploymentToBeProvisioned example_constants 300
                      [Tick 400, Settled None, Tick 500])
   \<and> outcome (waitForDeploymentToBeProvisioned example_constants 300
                ([Tick 400, Settled None, Tick 500] @ Settled (Some False) # [Tick 2000]))
       = Success ()"
proof -
  have h1: "0 < in_flight (waitForDeploymentToBeProvisioned example_constants 300 [Tick 400])"
    by (simp add: poller_defs example_defs Let_def)
  have h2: "outcome (waitForDeploymentToBeProvisioned example_constants 300
                [Tick 400, Settled None, Tick 500]) = Pending
            \<and> 0 < in_flight (waitForDeploymentToBeProvisioned example_constants 300
                      [Tick 400, Settled None, Tick 500])"
    by (simp add: poller_defs example_defs Let_def)
  have h3: "waitForDeploymentToBeProvisioned example_constants 300 [Tick 400]
              = \<lparr> outcome = Pending, interval_active = True, in_flight = 1, logged = [] \<rparr>"
    by (simp add: poller_defs example_defs Let_def)
  have h4: "Settled (Some False) \<notin> set [Tick 400, Settled None, Tick 500 :: bool option event]"
    by simp
  show ?thesis
    using h1 h2 h3 h4
      C7_edge_poller_outcomes[of "waitForDeploymentToBeProvisioned example_constants 300 [Tick 400]"
        "[Tick 400, Settled None, Tick 500]" example_constants 300 "[Tick 2000]"]
    by simp
qed


section \<open>Verification of the update\<close>

lemma keys_desired_entries: "map fst (desired_entries f desired) = keys desired"
  by (simp add: desired_entries_def entries_def keys_def case_prod_unfold comp_def)

lemma category_matches_keys:
  "category_matches response f desired \<Longrightarrow> keys (or_empty response) = keys desired"
  unfolding category_matches_def entries_def
  by (metis keys_def keys_desired_entries)

lemma category_ok_keys:
  "category_ok env combined remote cat \<Longrightarrow>
   response_keys cat remote = desired_keys cat combined"
  by (cases cat) (simp_all add: category_matches_keys)

lemma verifyProject_fails:
  assumes "f \<in> set verified_fields" and "\<not> field_ok env fx combined project f"
  shows "\<exists>g. \<not> field_ok env fx combined project g \<and>
             verifyProject env fx combined project
               = Inl (AssertionError (Some (field_message g)))"
proof (cases "find (\<lambda>f. \<not> field_ok env fx combined project f) verified_fields")
  case None
  then show ?thesis using assms by (auto simp: find_None_iff)
next
  case (Some g)
  then have "\<not> field_ok env fx combined project g" by (auto simp: find_Some_iff)
  then show ?thesis using Some by (auto simp: verifyProject_def)
qed

lemma Category_verified: "Category cat \<in> set verified_fields"
  by (cases cat) (simp_all add: verified_fields_def)

lemma field_message_inj: "field_message f = field_message g \<Longrightarrow> f = g"
  by (cases f rule: field_message.cases; cases g rule: field_message.cases) simp_all

lemma case_option_if:
  "(case (if c then x else y) of None \<Rightarrow> a | Some f \<Rightarrow> g f)
     = (if c then (case x of None \<Rightarrow> a | Some f \<Rightarrow> g f)
        else (case y of None \<Rightarrow> a | Some f \<Rightarrow> g f))"
  by simp

lemma verifyProject_chain:
  "verifyProject env fixtureConfig combined project =
     (if Some (build_command (project_build_config project))
           \<noteq> buildCommand (fixture_buildConfig fixtureConfig)
      then Inl (AssertionError (Some ''Build command was not set correctly.''))
      else if Some (destination_dir (project_build_config project))
                \<noteq> buildOutputDirectory (fixture_buildConfig fixtureConfig)
      then Inl (AssertionError (Some ''Build output directory was not set correctly.''))
      else if Some (root_dir (project_build_config project))
                \<noteq> rootDirectory (fixture_buildConfig fixtureConfig)
      then Inl (AssertionError (Some ''Root directory was not set correctly.''))
      else if compatibility_date (deployment_configs_preview project)
                \<noteq> compatibilityDate fixtureConfig
      then Inl (AssertionError (Some ''Compatibility date was not set correctly.''))
      else if compatibility_flags (deployment_configs_preview project)
                \<noteq> compatibilityFlags fixtureConfig
      then Inl (AssertionError (Some ''Compatibility flags were not set correctly.''))
      else if or_empty (env_vars (deployment_configs_preview project))
                \<noteq> map (\<lambda>(name, v). (name, Some (plain_text v)))
                      (combined_environmentVariables combined)
      then Inl (AssertionError (Some ''Environment variables were not set correctly.''))
      else if or_empty (d1_databases (deployment_configs_preview project))
                \<noteq> map (\<lambda>(name, v). (name, Some (v env))) (combined_d1Databases combined)
      then Inl (AssertionError (Some ''D1 database bindings were not set correctly.''))
      else if or_empty (durable_object_namespaces (deployment_configs_preview project))
                \<noteq> map (\<lambda>(name, v). (name, Some \<lparr> namespace_id = descriptor_id (v env) \<rparr>))
                      (combined_durableObjectNamespaces combined)
      then Inl (AssertionError
                  (Some ''Durable Object namespace bindings were not set correctly.''))
      else if or_empty (kv_namespaces (deployment_configs_preview project))
                \<noteq> map (\<lambda>(name, v). (name, Some \<lparr> namespace_id = descriptor_id (v env) \<rparr>))
                      (combined_kvNamespaces combined)
      then Inl (AssertionError (Some ''KV namespace bindings were not set correctly.''))
      else if or_empty (r2_buckets (deployment_configs_preview project))
                \<noteq> map (\<lambda>(name, v). (name, Some (v env))) (combined_r2Buckets combined)
      then Inl (AssertionError (Some ''R2 bucket bindings were not set correctly.''))
      else if or_empty (remote_services (deployment_configs_preview project))
                \<noteq> map (\<lambda>(name, v).
                         (name, Some \<lparr> service = service_name (v env),
                                       service_environment = service_env (v env) \<rparr>))
                      (combined_services combined)
      then Inl (AssertionError (Some ''Service bindings were not set correctly.''))
      else if or_empty (queue_producers (deployment_configs_preview project))
                \<noteq> map (\<lambda>(name, v). (name, Some (v env))) (combined_queueProducers combined)
      then Inl (AssertionError (Some ''Queue Producer bindings were not set correctly.''))
      else if or_empty (analytics_engine_datasets (deployment_configs_preview project))
                \<noteq> map (\<lambda>(name, v). (name, Some \<lparr> dataset = descriptor_name (v env) \<rparr>))
                      (combined_analyticsEngineDatasets combined)
      then Inl (AssertionError
                  (Some ''Analytics Engine dataset bindings were not set correctly.''))
      else Inr ())"
  unfolding verifyProject_def verified_fields_def
  by (simp only: find.simps field_ok.simps category_ok.simps category_matches_def
        desired_entries_def entries_def remote_representations case_option_if option.case
        field_message.simps)

lemma case_sum_if:
  "(case (if c then x else y) of Inl e \<Rightarrow> a e | Inr u \<Rightarrow> b u)
     = (if c then (case x of Inl e \<Rightarrow> a e | Inr u \<Rightarrow> b u)
        else (case y of Inl e \<Rightarrow> a e | Inr u \<Rightarrow> b u))"
  by simp

text \<open>
  Claim C8. The update was answered with a project. \<^verbatim>\<open>configureProject\<close> then makes
  the thirteen comparisons in the source's order and fails with the message of the first
  that does not hold; it returns the project when all hold. For each category the
  comparison is the equality of two lists of entries: the entries of the response's
  category, in property order, and the entries of the combined configuration, each value
  replaced by its remote representation in the target environment. So another order, a
  key that only one side has, or another value makes the comparison fail. In
  particular, if the list of keys of the response's category differs from the list of
  keys of the combined configuration, \<^verbatim>\<open>configureProject\<close> fails with the message of
  an assertion that does not hold, and that assertion is the one of this category when
  every other assertion holds.
\<close>

theorem C8_verification_is_ordered_equality:
  assumes "env = Production \<or> env = Staging"
    and "get_project remote = Some initialProject"
    and "patch_project remote
           (updatePayload env initialProject fixtureConfig
              (combinedDeploymentConfig (fixture_deploymentConfig fixtureConfig) featuresConfig))
         = Some project"
  shows
   "let combined =
          combinedDeploymentConfig (fixture_deploymentConfig fixtureConfig) featuresConfig
    in
     configureProject env remote fixtureConfig featuresConfig =
       (if Some (build_command (project_build_config project))
             \<noteq> buildCommand (fixture_buildConfig fixtureConfig)
        then Inl (ResponseErrorOf
                    (AssertionError (Some ''Build command was not set correctly.'')))
        else if Some (destination_dir (project_build_config project))
                  \<noteq> buildOutputDirectory (fixture_buildConfig fixtureConfig)
        then Inl (ResponseErrorOf
                    (AssertionError (Some ''Build output directory was not set correctly.'')))
        else if Some (root_dir (project_build_config project))
                  \<noteq> rootDirectory (fixture_buildConfig fixtureConfig)
        then Inl (ResponseErrorOf
                    (AssertionError (Some ''Root directory was not set correctly.'')))
        else if compatibility_date (deployment_configs_preview project)
                  \<noteq> compatibilityDate fixtureConfig
        then Inl (ResponseErrorOf
                    (AssertionError (Some ''Compatibility date was not set correctly.'')))
        else if compatibility_flags (deployment_configs_preview project)
                  \<noteq> compatibilityFlags fixtureConfig
        then Inl (ResponseErrorOf
                    (AssertionError (Some ''Compatibility flags were not set correctly.'')))
        else if or_empty (env_vars (deployment_configs_preview project))
                  \<noteq> map (\<lambda>(name, v). (name, Some (plain_text v)))
                        (combined_environmentVariables combined)
        then Inl (ResponseErrorOf
                    (AssertionError (Some ''Environment variables were not set correctly.'')))
        else if or_empty (d1_databases (deployment_configs_preview project))
                  \<noteq> map (\<lambda>(name, v). (name, Some (v env))) (combined_d1Databases combined)
        then Inl (ResponseErrorOf
                    (AssertionError (Some ''D1 database bindings were not set correctly.'')))
        else if or_empty (durable_object_namespaces (deployment_configs_preview project))
                  \<noteq> map (\<lambda>(name, v).
                           (name, Some \<lparr> namespace_id = descriptor_id (v env) \<rparr>))
                        (combined_durableObjectNamespaces combined)
        then Inl (ResponseErrorOf
                    (AssertionError
                       (Some ''Durable Object namespace bindings were not set correctly.'')))
        else if or_empty (kv_namespaces (deployment_configs_preview project))
                  \<noteq> map (\<lambda>(name, v).
                           (name, Some \<lparr> namespace_id = descriptor_id (v env) \<rparr>))
                        (combined_kvNamespaces combined)
        then Inl (ResponseErrorOf
                    (AssertionError (Some ''KV namespace bindings were not set correctly.'')))
        else if or_empty (r2_buckets (deployment_configs_preview project))
                  \<noteq> map (\<lambda>(name, v). (name, Some (v env))) (combined_r2Buckets combined)
        then Inl (ResponseErrorOf
                    (AssertionError (Some ''R2 bucket bindings were not set correctly.'')))
        else if or_empty (remote_services (deployment_configs_preview project))
                  \<noteq> map (\<lambda>(name, v).
                           (name, Some \<lparr> service = service_name (v env),
                                         service_environment = service_env (v env) \<rparr>))
                        (combined_services combined)
        then Inl (ResponseErrorOf
                    (AssertionError (Some ''Service bindings were not set correctly.'')))
        else if or_empty (queue_producers (deployment_configs_preview project))
                  \<noteq> map (\<lambda>(name, v). (name, Some (v env)))
                        (combined_queueProducers combined)
        then Inl (ResponseErrorOf
                    (AssertionError (Some ''Queue Producer bindings were not set correctly.'')))
        else if or_empty (analytics_engine_datasets (deployment_configs_preview project))
                  \<noteq> map (\<lambda>(name, v). (name, Some \<lparr> dataset = descriptor_name (v env) \<rparr>))
                        (combined_analyticsEngineDatasets combined)
        then Inl (ResponseErrorOf
                    (AssertionError
                       (Some ''Analytics Engine dataset bindings were not set correctly.'')))
        else Inr project)
     \<and> (response_keys cat (deployment_configs_preview project) \<noteq> desired_keys cat combined
        \<longrightarrow> (\<exists>f. \<not> field_ok env fixtureConfig combined project f
                 \<and> configureProject env remote fixtureConfig featuresConfig
                     = Inl (ResponseErrorOf (AssertionError (Some (field_message f))))
                 \<and> ((\<forall>g. g \<noteq> Category cat \<longrightarrow>
                          field_ok env fixtureConfig combined project g)
                      \<longrightarrow> f = Category cat)))"
proof -
  let ?combined =
    "combinedDeploymentConfig (fixture_deploymentConfig fixtureConfig) featuresConfig"
  have run: "configureProject env remote fixtureConfig featuresConfig =
               (case verifyProject env fixtureConfig ?combined project of
                  Inl e \<Rightarrow> Inl (ResponseErrorOf e)
                | Inr u \<Rightarrow> Inr project)"
    using assms by (auto simp: configureProject_def Let_def)
  have chain: "configureProject env remote fixtureConfig featuresConfig =
       (if Some (build_command (project_build_config project))
             \<noteq> buildCommand (fixture_buildConfig fixtureConfig)
        then Inl (ResponseErrorOf
                    (AssertionError (Some ''Build command was not set correctly.'')))
        else if Some (destination_dir (project_build_config project))
                  \<noteq> buildOutputDirectory (fixture_buildConfig fixtureConfig)
        then Inl (ResponseErrorOf
                    (AssertionError (Some ''Build output directory was not set correctly.'')))
        else if Some (root_dir (project_build_config project))
                  \<noteq> rootDirectory (fixture_buildConfig fixtureConfig)
        then Inl (ResponseErrorOf
                    (AssertionError (Some ''Root directory was not set correctly.'')))
        else if compatibility_date (deployment_configs_preview project)
                  \<noteq> compatibilityDate fixtureConfig
        then Inl (ResponseErrorOf
                    (AssertionError (Some ''Compatibility date was not set correctly.'')))
        else if compatibility_flags (deployment_configs_preview project)
                  \<noteq> compatibilityFlags fixtureConfig
        then Inl (ResponseErrorOf
                    (AssertionError (Some ''Compatibility flags were not set correctly.'')))
        else if or_empty (env_vars (deployment_configs_preview project))
                  \<noteq> map (\<lambda>(name, v). (name, Some (plain_text v)))
                        (combined_environmentVariables ?combined)
        then Inl (ResponseErrorOf
                    (AssertionError (Some ''Environment variables were not set correctly.'')))
        else if or_empty (d1_databases (deployment_configs_preview project))
                  \<noteq> map (\<lambda>(name, v). (name, Some (v env))) (combined_d1Databases ?combined)
        then Inl (ResponseErrorOf
                    (AssertionError (Some ''D1 database bindings were not set correctly.'')))
        else if or_empty (durable_object_namespaces (deployment_configs_preview project))
                  \<noteq> map (\<lambda>(name, v).
                           (name, Some \<lparr> namespace_id = descriptor_id (v env) \<rparr>))
                        (combined_durableObjectNamespaces ?combined)
        then Inl (ResponseErrorOf
                    (AssertionError
                       (Some ''Durable Object namespace bindings were not set correctly.'')))
        else if or_empty (kv_namespaces (deployment_configs_preview project))
                  \<noteq> map (\<lambda>(name, v).
                           (name, Some \<lparr> namespace_id = descriptor_id (v env) \<rparr>))
                        (combined_kvNamespaces ?combined)
        then Inl (ResponseErrorOf
                    (AssertionError (Some ''KV namespace bindings were not set correctly.'')))
        else if or_empty (r2_buckets (deployment_configs_preview project))
                  \<noteq> map (\<lambda>(name, v). (name, Some (v env))) (combined_r2Buckets ?combined)
        then Inl (ResponseErrorOf
                    (AssertionError (Some ''R2 bucket bindings were not set correctly.'')))
        else if or_empty (remote_services (deployment_configs_preview project))
                  \<noteq> map (\<lambda>(name, v).
                           (name, Some \<lparr> service = service_name (v env),
                                         service_environment = service_env (v env) \<rparr>))
                        (combined_services ?combined)
        then Inl (ResponseErrorOf
                    (AssertionError (Some ''Service bindings were not set correctly.'')))
        else if or_empty (queue_producers (deployment_configs_preview project))
                  \<noteq> map (\<lambda>(name, v). (name, Some (v env)))
                        (combined_queueProducers ?combined)
        then Inl (ResponseErrorOf
                    (AssertionError (Some ''Queue Producer bindings were not set correctly.'')))
        else if or_empty (analytics_engine_datasets (deployment_configs_preview project))
                  \<noteq> map (\<lambda>(name, v). (name, Some \<lparr> dataset = descriptor_name (v env) \<rparr>))
                        (combined_analyticsEngineDatasets ?combined)
        then Inl (ResponseErrorOf
                    (AssertionError
                       (Some ''Analytics Engine dataset bindings were not set correctly.'')))
        else Inr project)"
    by (simp only: run verifyProject_chain case_sum_if sum.case)
  have keys: "response_keys cat (deployment_configs_preview project)
                \<noteq> desired_keys cat ?combined
        \<longrightarrow> (\<exists>f. \<not> field_ok env fixtureConfig ?combined project f
                 \<and> configureProject env remote fixtureConfig featuresConfig
                     = Inl (ResponseErrorOf (AssertionError (Some (field_message f))))
                 \<and> ((\<forall>g. g \<noteq> Category cat \<longrightarrow>
                          field_ok env fixtureConfig ?combined project g)
                      \<longrightarrow> f = Category cat))"
  proof
    assume differ: "response_keys cat (deployment_configs_preview project)
                      \<noteq> desired_keys cat ?combined"
    have "\<not> field_ok env fixtureConfig ?combined project (Category cat)"
      using differ category_ok_keys by auto
    from verifyProject_fails[OF Category_verified this]
    obtain f where f: "\<not> field_ok env fixtureConfig ?combined project f"
      "verifyProject env fixtureConfig ?combined project
         = Inl (AssertionError (Some (field_message f)))"
      by blast
    have "configureProject env remote fixtureConfig featuresConfig
                 = Inl (ResponseErrorOf (AssertionError (Some (field_message f))))"
      by (simp add: run f(2))
    with f(1) show "\<exists>f. \<not> field_ok env fixtureConfig ?combined project f
                 \<and> configureProject env remote fixtureConfig featuresConfig
                     = Inl (ResponseErrorOf (AssertionError (Some (field_message f))))
                 \<and> ((\<forall>g. g \<noteq> Category cat \<longrightarrow>
                          field_ok env fixtureConfig ?combined project g)
                      \<longrightarrow> f = Category cat)"
      by blast
  qed
  show ?thesis
    unfolding Let_def using chain keys by (rule conjI)
qed

theorem C8_verification_is_ordered_equality_witness:
  "get_project example_reordering_platform = Some example_initial_project
   \<and> patch_project example_reordering_platform
        (updatePayload Production example_initial_project example_fixture
           (combinedDeploymentConfig (fixture_deploymentConfig example_fixture)
              initialFeaturesConfig))
      = Some (reorder_kv_namespaces
                (updatePayload Production example_initial_project example_fixture
                   (combinedDeploymentConfig (fixture_deploymentConfig example_fixture)
                      initialFeaturesConfig)))
   \<and> response_keys KvNamespaces
        (deployment_configs_preview
           (reorder_kv_namespaces
              (updatePayload Production example_initial_project example_fixture
                 (combinedDeploymentConfig (fixture_deploymentConfig example_fixture)
                    initialFeaturesConfig))))
      = [''ASSETS'', ''CACHE'']
   \<and> desired_keys KvNamespaces
        (combinedDeploymentConfig (fixture_deploymentConfig example_fixture)
           initialFeaturesConfig)
      = [''CACHE'', ''ASSETS'']
   \<and> configureProject Production example_reordering_platform example_fixture
        initialFeaturesConfig
      = Inl (ResponseErrorOf
               (AssertionError (Some ''KV namespace bindings were not set correctly.'')))"
proof -
  let ?combined =
    "combinedDeploymentConfig (fixture_deploymentConfig example_fixture) initialFeaturesConfig"
  let ?payload = "updatePayload Production example_initial_project example_fixture ?combined"
  have h1: "Production = Production \<or> Production = Staging" by simp
  have h2: "get_project example_reordering_platform = Some example_initial_project"
    by (simp add: example_defs)
  have h3: "patch_project example_reordering_platform ?payload
              = Some (reorder_kv_namespaces ?payload)"
    by (simp add: example_reordering_platform_def)
  have k1: "response_keys KvNamespaces
              (deployment_configs_preview (reorder_kv_namespaces ?payload))
            = [''ASSETS'', ''CACHE'']"
    by (simp add: example_defs reconcile_defs object_defs Let_def)
  have k2: "desired_keys KvNamespaces ?combined = [''CACHE'', ''ASSETS'']"
    by (simp add: example_defs reconcile_defs object_defs Let_def)
  have h4: "response_keys KvNamespaces
              (deployment_configs_preview (reorder_kv_namespaces ?payload))
            \<noteq> desired_keys KvNamespaces ?combined"
    by (simp only: k1 k2) simp
  have others: "\<forall>g. g \<noteq> Category KvNamespaces \<longrightarrow>
                  field_ok Production example_fixture ?combined
                    (reorder_kv_namespaces ?payload) g"
  proof (intro allI impI)
    fix g :: field
    assume "g \<noteq> Category KvNamespaces"
    then show "field_ok Production example_fixture ?combined (reorder_kv_namespaces ?payload) g"
      by (cases g rule: field_message.cases)
         (simp_all add: example_defs reconcile_defs object_defs Let_def)
  qed
  note claim = C8_verification_is_ordered_equality[OF h1 h2 h3, where cat = KvNamespaces,
      unfolded Let_def]
  from claim h4 others
  have "configureProject Production example_reordering_platform example_fixture
          initialFeaturesConfig
        = Inl (ResponseErrorOf (AssertionError (Some (field_message (Category KvNamespaces)))))"
    by blast
  then show ?thesis using h2 h3 k1 k2 by simp
qed

text \<open>
  A response with the right keys in the right order and another value is rejected as well:
  here the platform answers with another id for every KV namespace.
\<close>

lemma verification_rejects_wrong_value:
  "configureProject Production example_revaluing_platform example_fixture
     initialFeaturesConfig
   = Inl (ResponseErrorOf
            (AssertionError (Some ''KV namespace bindings were not set correctly.'')))"
  by (simp add: example_defs example_revaluing_platform_def revalue_kv_namespaces_def
      reconcile_defs object_defs Let_def)

text \<open>
  Claim C10, against the claim as it is written: a fixture whose three build fields are
  the empty string. The payload sends the empty string, the platform answers with the
  payload, and the response's field is identical to the fixture's raw field, so the
  three assertions hold and \<^verbatim>\<open>configureProject\<close> returns the project.
\<close>

theorem C10_empty_string_passes_verification:
  "buildCommand (fixture_buildConfig example_fixture_empty_command) = Some []
   \<and> build_command
        (project_build_config
           (updatePayload Production example_initial_project example_fixture_empty_command
              (combinedDeploymentConfig
                 (fixture_deploymentConfig example_fixture_empty_command)
                 initialFeaturesConfig))) = []
   \<and> patch_project example_platform
        (updatePayload Production example_initial_project example_fixture_empty_command
           (combinedDeploymentConfig
              (fixture_deploymentConfig example_fixture_empty_command)
              initialFeaturesConfig))
      = Some (updatePayload Production example_initial_project example_fixture_empty_command
                (combinedDeploymentConfig
                   (fixture_deploymentConfig example_fixture_empty_command)
                   initialFeaturesConfig))
   \<and> configureProject Production example_platform example_fixture_empty_command
        initialFeaturesConfig
      = Inr (updatePayload Production example_initial_project example_fixture_empty_command
               (combinedDeploymentConfig
                  (fixture_deploymentConfig example_fixture_empty_command)
                  initialFeaturesConfig))"
  by (simp add: example_defs reconcile_defs object_defs Let_def)

lemma field_ok_echo_build:
  "field_ok env fx combined (updatePayload env initialProject fx combined) BuildCommand
     \<longleftrightarrow> buildCommand (fixture_buildConfig fx) \<noteq> None"
  "field_ok env fx combined (updatePayload env initialProject fx combined) BuildOutputDirectory
     \<longleftrightarrow> buildOutputDirectory (fixture_buildConfig fx) \<noteq> None"
  "field_ok env fx combined (updatePayload env initialProject fx combined) RootDirectory
     \<longleftrightarrow> rootDirectory (fixture_buildConfig fx) \<noteq> None"
  by (auto simp: updatePayload_def or_empty_string_def Let_def split: option.splits)

text \<open>
  Claim C10, amended. In the payload each build field is the fixture's field, and the
  empty string when the fixture leaves the field undefined. When the platform answers
  with the payload, the comparison of a build field with the fixture's raw field holds
  exactly when the fixture defines the field (the empty string included). So if one of
  the three fields is undefined, \<^verbatim>\<open>configureProject\<close> fails with the message of the
  first such field, though the remote state is what was written.
\<close>

theorem C10_missing_build_field_fails_verification:
  assumes "env = Production \<or> env = Staging"
    and "get_project remote = Some initialProject"
    and "patch_project remote
           (updatePayload env initialProject fixtureConfig
              (combinedDeploymentConfig (fixture_deploymentConfig fixtureConfig) featuresConfig))
         = Some (updatePayload env initialProject fixtureConfig
              (combinedDeploymentConfig (fixture_deploymentConfig fixtureConfig) featuresConfig))"
    and "buildCommand (fixture_buildConfig fixtureConfig) = None
         \<or> buildOutputDirectory (fixture_buildConfig fixtureConfig) = None
         \<or> rootDirectory (fixture_buildConfig fixtureConfig) = None"
  shows
   "let payload =
          updatePayload env initialProject fixtureConfig
            (combinedDeploymentConfig (fixture_deploymentConfig fixtureConfig) featuresConfig)
    in
      project_build_config payload =
        \<lparr> build_command =
            (case buildCommand (fixture_buildConfig fixtureConfig) of
               None \<Rightarrow> [] | Some s \<Rightarrow> s),
          destination_dir =
            (case buildOutputDirectory (fixture_buildConfig fixtureConfig) of
               None \<Rightarrow> [] | Some s \<Rightarrow> s),
          root_dir =
            (case rootDirectory (fixture_buildConfig fixtureConfig) of
               None \<Rightarrow> [] | Some s \<Rightarrow> s) \<rparr>
    \<and> (Some (build_command (project_build_config payload))
          = buildCommand (fixture_buildConfig fixtureConfig)
        \<longleftrightarrow> buildCommand (fixture_buildConfig fixtureConfig) \<noteq> None)
    \<and> (Some (destination_dir (project_build_config payload))
          = buildOutputDirectory (fixture_buildConfig fixtureConfig)
        \<longleftrightarrow> buildOutputDirectory (fixture_buildConfig fixtureConfig) \<noteq> None)
    \<and> (Some (root_dir (project_build_config payload))
          = rootDirectory (fixture_buildConfig fixtureConfig)
        \<longleftrightarrow> rootDirectory (fixture_buildConfig fixtureConfig) \<noteq> None)
    \<and> configureProject env remote fixtureConfig featuresConfig
        = Inl (ResponseErrorOf
                 (AssertionError
                    (Some (if buildCommand (fixture_buildConfig fixtureConfig) = None
                           then ''Build command was not set correctly.''
                           else if buildOutputDirectory (fixture_buildConfig fixtureConfig)
                                     = None
                           then ''Build output directory was not set correctly.''
                           else ''Root directory was not set correctly.''))))"
proof -
  let ?combined =
    "combinedDeploymentConfig (fixture_deploymentConfig fixtureConfig) featuresConfig"
  let ?payload = "updatePayload env initialProject fixtureConfig ?combined"
  let ?message = "if buildCommand (fixture_buildConfig fixtureConfig) = None
                  then ''Build command was not set correctly.''
                  else if buildOutputDirectory (fixture_buildConfig fixtureConfig) = None
                  then ''Build output directory was not set correctly.''
                  else ''Root directory was not set correctly.''"
  have built: "project_build_config ?payload =
        \<lparr> build_command =
            (case buildCommand (fixture_buildConfig fixtureConfig) of
               None \<Rightarrow> [] | Some s \<Rightarrow> s),
          destination_dir =
            (case buildOutputDirectory (fixture_buildConfig fixtureConfig) of
               None \<Rightarrow> [] | Some s \<Rightarrow> s),
          root_dir =
            (case rootDirectory (fixture_buildConfig fixtureConfig) of
               None \<Rightarrow> [] | Some s \<Rightarrow> s) \<rparr>"
    by (simp add: updatePayload_def Let_def or_empty_string_def split: option.splits)
  have command: "Some (build_command (project_build_config ?payload))
          = buildCommand (fixture_buildConfig fixtureConfig)
        \<longleftrightarrow> buildCommand (fixture_buildConfig fixtureConfig) \<noteq> None"
    by (auto simp: built split: option.splits)
  have directory: "Some (destination_dir (project_build_config ?payload))
          = buildOutputDirectory (fixture_buildConfig fixtureConfig)
        \<longleftrightarrow> buildOutputDirectory (fixture_buildConfig fixtureConfig) \<noteq> None"
    by (auto simp: built split: option.splits)
  have root: "Some (root_dir (project_build_config ?payload))
          = rootDirectory (fixture_buildConfig fixtureConfig)
        \<longleftrightarrow> rootDirectory (fixture_buildConfig fixtureConfig) \<noteq> None"
    by (auto simp: built split: option.splits)
  have verify: "verifyProject env fixtureConfig ?combined ?payload
                  = Inl (AssertionError (Some ?message))"
  proof (cases "buildCommand (fixture_buildConfig fixtureConfig) = None")
    case True
    then show ?thesis
      by (simp add: verifyProject_def verified_fields_def field_ok_echo_build
          del: field_ok.simps)
  next
    case defined_command: False
    show ?thesis
    proof (cases "buildOutputDirectory (fixture_buildConfig fixtureConfig) = None")
      case True
      with defined_command show ?thesis
        by (simp add: verifyProject_def verified_fields_def field_ok_echo_build
            del: field_ok.simps)
    next
      case defined_directory: False
      have "rootDirectory (fixture_buildConfig fixtureConfig) = None"
        using defined_command defined_directory assms(4) by auto
      with defined_command defined_directory show ?thesis
        by (simp add: verifyProject_def verified_fields_def field_ok_echo_build
            del: field_ok.simps)
    qed
  qed
  have failed: "configureProject env remote fixtureConfig featuresConfig
                  = Inl (ResponseErrorOf (AssertionError (Some ?message)))"
    using assms(1,2,3) verify by (auto simp: configureProject_def Let_def)
  show ?thesis
    unfolding Let_def using built command directory root failed by (intro conjI)
qed

theorem C10_missing_build_field_fails_verification_witness:
  "get_project example_platform = Some example_initial_project
   \<and> patch_project example_platform
        (updatePayload Staging example_initial_project example_fixture_without_command
           (combinedDeploymentConfig
              (fixture_deploymentConfig example_fixture_without_command)
              initialFeaturesConfig))
      = Some (updatePayload Staging example_initial_project example_fixture_without_command
                (combinedDeploymentConfig
                   (fixture_deploymentConfig example_fixture_without_command)
                   initialFeaturesConfig))
   \<and> buildCommand (fixture_buildConfig example_fixture_without_command) = None
   \<and> build_command
        (project_build_config
           (updatePayload Staging example_initial_project example_fixture_without_command
              (combinedDeploymentConfig
                 (fixture_deploymentConfig example_fixture_without_command)
                 initialFeaturesConfig))) = []
   \<and> configureProject Staging example_platform example_fixture_without_command
        initialFeaturesConfig
      = Inl (ResponseErrorOf
               (AssertionError (Some ''Build command was not set correctly.'')))"
proof -
  have h1: "Staging = Production \<or> Staging = Staging" by simp
  have h2: "get_project example_platform = Some example_initial_project"
    by (simp add: example_defs)
  have h3: "patch_project example_platform
        (updatePayload Staging example_initial_project example_fixture_without_command
           (combinedDeploymentConfig
              (fixture_deploymentConfig example_fixture_without_command)
              initialFeaturesConfig))
      = Some (updatePayload Staging example_initial_project example_fixture_without_command
                (combinedDeploymentConfig
                   (fixture_deploymentConfig example_fixture_without_command)
                   initialFeaturesConfig))"
    by (simp add: example_platform_def)
  have b: "buildCommand (fixture_buildConfig example_fixture_without_command) = None"
    by (simp add: example_defs)
  have h4: "buildCommand (fixture_buildConfig example_fixture_without_command) = None
         \<or> buildOutputDirectory (fixture_buildConfig example_fixture_without_command) = None
         \<or> rootDirectory (fixture_buildConfig example_fixture_without_command) = None"
    using b by simp
  note claim = C10_missing_build_field_fails_verification[OF h1 h2 h3 h4, unfolded Let_def]
  have payload: "build_command
        (project_build_config
           (updatePayload Staging example_initial_project example_fixture_without_command
              (combinedDeploymentConfig
                 (fixture_deploymentConfig example_fixture_without_command)
                 initialFeaturesConfig))) = []"
    using claim b by simp
  have failed: "configureProject Staging example_platform example_fixture_without_command
        initialFeaturesConfig
      = Inl (ResponseErrorOf
               (AssertionError (Some ''Build command was not set correctly.'')))"
    using claim b by simp
  show ?thesis using h2 h3 b payload failed by simp
qed


section \<open>The lease on the project\<close>

text \<open>
  Claim C6. In a run through Git in which every step up to the firing of the Deploy Hook
  succeeds, the calls are made in this order: the push, the creation of the Deploy Hook,
  the acquisition of the lease for the key built from the API host, the account and the
  project, the reconciliation, the firing of the hook, the release of the lease, and then
  the wait for the deployment. Between the acquisition and the release there is nothing
  but the reconciliation and the firing. When the release throws, a warning is logged
  and the run ends as it does when the release succeeds.
\<close>

theorem C6_lease_spans_reconcile_and_trigger:
  assumes "HOSTS w env = Some h" and "PAGES_PROJECTS w env trig = Some p"
    and "trig \<noteq> DirectUpload"
    and "GIT_REPO p = Some repo" and "repo \<noteq> []" and "git_push_succeeds w"
    and "created_hook_id w = Some hookId" and "hookId \<noteq> []"
    and "acquired_mutex w = Some mutex"
    and "configureProject env (platform.truncate w) fixtureConfig featuresConfig = Inr project"
    and "fired_deployment_id w = Some ident" and "ident \<noteq> []"
  shows "(\<exists>rest.
            fst (createDeployment w env trig fixtureConfig featuresConfig) =
              [GitPush repo, RegisterTeardown ''Delete Git branch'', CreateDeployHook,
               RegisterTeardown ''Delete Deploy Hook'',
               AcquireMutex
                 (encodeURIComponent w
                    (api h @ '':'' @ CLOUDFLARE_ACCOUNT_ID p @ '':'' @ PROJECT_NAME p)),
               ConfigureProject, FireDeployHook hookId, ReleaseMutex mutex]
              @ (if release_succeeds w then [] else [LoggerWarn])
              @ AwaitDeployment ident # rest)
       \<and> snd (createDeployment w env trig fixtureConfig featuresConfig)
           = snd (createDeployment (w\<lparr> release_succeeds := True \<rparr>) env trig fixtureConfig
                    featuresConfig)"
proof -
  have hook: "deployWithHook w env h p fixtureConfig featuresConfig =
          ([GitPush repo, RegisterTeardown ''Delete Git branch'', CreateDeployHook,
            RegisterTeardown ''Delete Deploy Hook'',
            AcquireMutex
              (encodeURIComponent w
                 (api h @ '':'' @ CLOUDFLARE_ACCOUNT_ID p @ '':'' @ PROJECT_NAME p)),
            ConfigureProject, FireDeployHook hookId, ReleaseMutex mutex]
           @ (if release_succeeds w then [] else [LoggerWarn]),
           Inr ident)"
    using assms(4-12) by (simp add: deployWithHook_def mutexKey_def Let_def)
  have truncate: "platform.truncate (w\<lparr> release_succeeds := True \<rparr>) = platform.truncate w"
    by (simp add: platform.truncate_def)
  have hook': "snd (deployWithHook (w\<lparr> release_succeeds := True \<rparr>) env h p fixtureConfig
                      featuresConfig) = Inr ident"
    using assms(4-12) by (simp add: deployWithHook_def mutexKey_def Let_def truncate)
  have trace: "\<exists>rest.
            fst (createDeployment w env trig fixtureConfig featuresConfig) =
              [GitPush repo, RegisterTeardown ''Delete Git branch'', CreateDeployHook,
               RegisterTeardown ''Delete Deploy Hook'',
               AcquireMutex
                 (encodeURIComponent w
                    (api h @ '':'' @ CLOUDFLARE_ACCOUNT_ID p @ '':'' @ PROJECT_NAME p)),
               ConfigureProject, FireDeployHook hookId, ReleaseMutex mutex]
              @ (if release_succeeds w then [] else [LoggerWarn])
              @ AwaitDeployment ident # rest"
    using assms(1-3) hook
    by (simp add: createDeployment_def split: outcome.split)
  have result: "snd (createDeployment w env trig fixtureConfig featuresConfig)
           = snd (createDeployment (w\<lparr> release_succeeds := True \<rparr>) env trig fixtureConfig
                    featuresConfig)"
    using assms(1-3) hook hook'
    by (simp add: createDeployment_def split_beta split: outcome.split sum.split)
  from trace result show ?thesis by (rule conjI)
qed

lemma example_configureProject:
  "configureProject env (platform.truncate example_world) example_fixture initialFeaturesConfig
     = (if env = Local then Inl (AssertionError None)
        else Inr (updatePayload env example_initial_project example_fixture
                    (combinedDeploymentConfig (fixture_deploymentConfig example_fixture)
                       initialFeaturesConfig)))"
  by (cases env)
     (simp_all add: platform.truncate_def example_defs reconcile_defs object_defs Let_def)

theorem C6_lease_spans_reconcile_and_trigger_witness:
  "HOSTS example_world Production = Some example_host
   \<and> PAGES_PROJECTS example_world Production GitProvider = Some example_credentials
   \<and> git_push_succeeds example_world
   \<and> created_hook_id example_world = Some ''hook-1''
   \<and> acquired_mutex example_world = Some ''lease-1''
   \<and> fired_deployment_id example_world = Some ''deployment-1''
   \<and> \<not> release_succeeds example_world
   \<and> createDeployment example_world Production GitProvider example_fixture
        initialFeaturesConfig
      = ([GitPush ''git@example:pages.git'', RegisterTeardown ''Delete Git branch'',
          CreateDeployHook, RegisterTeardown ''Delete Deploy Hook'',
          AcquireMutex ''https://api.example:account:project'', ConfigureProject,
          FireDeployHook ''hook-1'', ReleaseMutex ''lease-1'', LoggerWarn,
          AwaitDeployment ''deployment-1'', AwaitProvisioned ''https://e2e.example''],
         Returns ''https://e2e.example'')"
proof -
  have h1: "HOSTS example_world Production = Some example_host"
    and h2: "PAGES_PROJECTS example_world Production GitProvider = Some example_credentials"
    and h3: "GitProvider \<noteq> DirectUpload"
    and h4: "GIT_REPO example_credentials = Some ''git@example:pages.git''"
    and h5: "''git@example:pages.git'' \<noteq> []"
    and h6: "git_push_succeeds example_world"
    and h7: "created_hook_id example_world = Some ''hook-1''"
    and h8: "''hook-1'' \<noteq> []"
    and h9: "acquired_mutex example_world = Some ''lease-1''"
    and h11: "fired_deployment_id example_world = Some ''deployment-1''"
    and h12: "''deployment-1'' \<noteq> []"
    and r: "\<not> release_succeeds example_world"
    by (simp_all add: example_defs)
  have h10: "configureProject Production (platform.truncate example_world) example_fixture
               initialFeaturesConfig
             = Inr (updatePayload Production example_initial_project example_fixture
                    (combinedDeploymentConfig (fixture_deploymentConfig example_fixture)
                       initialFeaturesConfig))"
    by (simp add: example_configureProject)
  have polled: "outcome (deploymentPoller (config example_world) example_host
                  example_credentials ''deployment-1'' (startDeployment example_world)
                  (deployment_schedule example_world)) = Success ''https://e2e.example''"
    by (simp add: poller_defs example_defs Let_def)
  have provisioned: "outcome (waitForDeploymentToBeProvisioned (config example_world)
                  (startProvisioner example_world) (provisioner_schedule example_world))
                  = Success ()"
    by (simp add: poller_defs example_defs Let_def)
  have hook: "deployWithHook example_world Production example_host example_credentials
                example_fixture initialFeaturesConfig
              = ([GitPush ''git@example:pages.git'', RegisterTeardown ''Delete Git branch'',
                  CreateDeployHook, RegisterTeardown ''Delete Deploy Hook'',
                  AcquireMutex ''https://api.example:account:project'', ConfigureProject,
                  FireDeployHook ''hook-1'', ReleaseMutex ''lease-1'', LoggerWarn],
                 Inr ''deployment-1'')"
    using h4 h6 h7 h9 h10 h11 r
    by (simp add: deployWithHook_def mutexKey_def Let_def)
       (simp add: example_defs)
  have run: "createDeployment example_world Production GitProvider example_fixture
        initialFeaturesConfig
      = ([GitPush ''git@example:pages.git'', RegisterTeardown ''Delete Git branch'',
          CreateDeployHook, RegisterTeardown ''Delete Deploy Hook'',
          AcquireMutex ''https://api.example:account:project'', ConfigureProject,
          FireDeployHook ''hook-1'', ReleaseMutex ''lease-1'', LoggerWarn,
          AwaitDeployment ''deployment-1'', AwaitProvisioned ''https://e2e.example''],
         Returns ''https://e2e.example'')"
    using C6_lease_spans_reconcile_and_trigger[OF h1 h2 h3 h4 h5 h6 h7 h8 h9 h10 h11 h12]
      h1 h2 hook polled provisioned
    by (simp add: createDeployment_def)
  show ?thesis using h1 h2 h6 h7 h9 h11 r run by simp
qed

text \<open>
  Claim C9. The lease was acquired. If the reconciliation fails, or the firing of the
  Deploy Hook fails, \<^verbatim>\<open>createDeployment\<close> throws and \<^verbatim>\<open>releaseMutex\<close> is not
  called: no release is among the calls of the run.
\<close>

theorem C9_lease_leaked_on_error:
  assumes "HOSTS w env = Some h" and "PAGES_PROJECTS w env trig = Some p"
    and "trig \<noteq> DirectUpload"
    and "GIT_REPO p = Some repo" and "repo \<noteq> []" and "git_push_succeeds w"
    and "created_hook_id w = Some hookId" and "hookId \<noteq> []"
    and "acquired_mutex w = Some mutex"
    and "(\<exists>e. configureProject env (platform.truncate w) fixtureConfig featuresConfig = Inl e)
         \<or> fired_deployment_id w = None \<or> fired_deployment_id w = Some []"
  shows "AcquireMutex (mutexKey w h p)
           \<in> set (fst (createDeployment w env trig fixtureConfig featuresConfig))
       \<and> (\<forall>m. ReleaseMutex m
                \<notin> set (fst (createDeployment w env trig fixtureConfig featuresConfig)))
       \<and> (\<exists>e. snd (createDeployment w env trig fixtureConfig featuresConfig) = Throws e)"
proof -
  let ?t2 = "[GitPush repo, RegisterTeardown ''Delete Git branch'', CreateDeployHook,
              RegisterTeardown ''Delete Deploy Hook'', AcquireMutex (mutexKey w h p)]"
  have "\<exists>t e. deployWithHook w env h p fixtureConfig featuresConfig = (?t2 @ t, Inl e)
               \<and> set t \<subseteq> {ConfigureProject, FireDeployHook hookId}"
  proof (cases "configureProject env (platform.truncate w) fixtureConfig featuresConfig")
    case (Inl e)
    then have "deployWithHook w env h p fixtureConfig featuresConfig
                 = (?t2 @ [ConfigureProject], Inl e)"
      using assms(4-9) by (simp add: deployWithHook_def Let_def)
    then show ?thesis by auto
  next
    case (Inr project)
    with assms(10) have "fired_deployment_id w = None \<or> fired_deployment_id w = Some []"
      by auto
    then have "deployWithHook w env h p fixtureConfig featuresConfig
                 = (?t2 @ [ConfigureProject, FireDeployHook hookId],
                    Inl (ResponseError (Some ''Could not create Deployment.'')))"
      using assms(4-9) Inr by (auto simp: deployWithHook_def Let_def)
    then show ?thesis by auto
  qed
  then obtain t e where t: "deployWithHook w env h p fixtureConfig featuresConfig
                              = (?t2 @ t, Inl e)"
    and sub: "set t \<subseteq> {ConfigureProject, FireDeployHook hookId}"
    by blast
  have run: "createDeployment w env trig fixtureConfig featuresConfig = (?t2 @ t, Throws e)"
    using assms(1-3) t by (simp add: createDeployment_def)
  show ?thesis using sub by (auto simp: run)
qed

theorem C9_lease_leaked_on_error_witness:
  "acquired_mutex example_world = Some ''lease-1''
   \<and> configureProject Staging (platform.truncate example_world)
        example_fixture_without_command initialFeaturesConfig
      = Inl (ResponseErrorOf
               (AssertionError (Some ''Build command was not set correctly.'')))
   \<and> AcquireMutex ''https://api.example:account:project''
        \<in> set (fst (createDeployment example_world Staging GitProvider
                       example_fixture_without_command initialFeaturesConfig))
   \<and> (\<forall>m. ReleaseMutex m
            \<notin> set (fst (createDeployment example_world Staging GitProvider
                           example_fixture_without_command initialFeaturesConfig)))
   \<and> snd (createDeployment example_world Staging GitProvider
             example_fixture_without_command initialFeaturesConfig)
      = Throws (ResponseErrorOf
                  (AssertionError (Some ''Build command was not set correctly.'')))"
proof -
  have h1: "HOSTS example_world Staging = Some example_host"
    and h2: "PAGES_PROJECTS example_world Staging GitProvider = Some example_credentials"
    and h3: "GitProvider \<noteq> DirectUpload"
    and h4: "GIT_REPO example_credentials = Some ''git@example:pages.git''"
    and h5: "''git@example:pages.git'' \<noteq> []"
    and h6: "git_push_succeeds example_world"
    and h7: "created_hook_id example_world = Some ''hook-1''"
    and h8: "''hook-1'' \<noteq> []"
    and h9: "acquired_mutex example_world = Some ''lease-1''"
    by (simp_all add: example_defs)
  have c: "configureProject Staging (platform.truncate example_world)
        example_fixture_without_command initialFeaturesConfig
      = Inl (ResponseErrorOf
               (AssertionError (Some ''Build command was not set correctly.'')))"
    by (simp add: platform.truncate_def example_defs reconcile_defs object_defs Let_def)
  then have h10: "(\<exists>e. configureProject Staging (platform.truncate example_world)
        example_fixture_without_command initialFeaturesConfig = Inl e)
         \<or> fired_deployment_id example_world = None
         \<or> fired_deployment_id example_world = Some []"
    by simp
  have key: "mutexKey example_world example_host example_credentials
               = ''https://api.example:account:project''"
    by (simp add: mutexKey_def example_defs)
  have thrown: "snd (createDeployment example_world Staging GitProvider
             example_fixture_without_command initialFeaturesConfig)
      = Throws (ResponseErrorOf
                  (AssertionError (Some ''Build command was not set correctly.'')))"
    using h1 h2 h4 h6 h7 h9 c
    by (simp add: createDeployment_def deployWithHook_def Let_def)
  show ?thesis
    using C9_lease_leaked_on_error[OF h1 h2 h3 h4 h5 h6 h7 h8 h9 h10] h9 c thrown
    by (simp add: key)
qed

end
